theory Spec2Isabelle
  imports Main
begin

section \<open>Bastion reconciliation for the Alicloud provider\<close>

text \<open>
  A shallow embedding of \<^verbatim>\<open>pkg/controller/bastion/actuator_reconcile.go\<close>.
  Go strings are \<^typ>\<open>string\<close>, a pointer that may be \<^verbatim>\<open>nil\<close> is an
  \<^typ>\<open>'a option\<close>, a slice is a list, and a struct is a record that carries the
  fields the file reads or writes, and, for a rule, the fields the claims speak of.
\<close>

subsection \<open>Failures\<close>

text \<open>
  A Go \<^verbatim>\<open>error\<close> value: \<open>Err\<close> is \<^verbatim>\<open>errors.New\<close> (or
  \<^verbatim>\<open>fmt.Errorf\<close> without a wrapped error, or an error handed back by a
  collaborator), \<open>Wrap\<close> is \<^verbatim>\<open>fmt.Errorf("...: %w", err)\<close> with the text in
  front of the wrapped error, and \<open>RequeueAfterError\<close> is the controller's retry signal
  with its \<^verbatim>\<open>RequeueAfter\<close> duration and its \<^verbatim>\<open>Cause\<close>.
  A run-time panic is kept apart from a returned error.
\<close>

datatype goerror =
    Err string
  | Wrap string goerror
  | RequeueAfterError int goerror

datatype panic = NilPointerDereference | IndexOutOfRange

datatype failure = Error goerror | Panic panic

text \<open>\<^verbatim>\<open>time.Duration\<close> counts nanoseconds.\<close>

definition Second :: int where
  "Second = 1000000000"

subsection \<open>Endpoints\<close>

text \<open>
  \<^verbatim>\<open>corev1.LoadBalancerIngress\<close>: the file reads and writes \<^verbatim>\<open>IP\<close> and
  \<^verbatim>\<open>Hostname\<close> only; a fresh value has both empty.
\<close>

record LoadBalancerIngress =
  IP :: string
  Hostname :: string

record bastionEndpoints =
  be_private :: "LoadBalancerIngress option"
  be_public :: "LoadBalancerIngress option"

definition IngressReady :: "LoadBalancerIngress option \<Rightarrow> bool" where
  "IngressReady ingress =
     (case ingress of
        None \<Rightarrow> False
      | Some i \<Rightarrow> Hostname i \<noteq> '''' \<or> IP i \<noteq> '''')"

definition Ready :: "bastionEndpoints option \<Rightarrow> bool" where
  "Ready be =
     (case be of
        None \<Rightarrow> False
      | Some e \<Rightarrow> IngressReady (be_private e) \<and> IngressReady (be_public e))"

definition addressToIngress :: "string option \<Rightarrow> string option \<Rightarrow> LoadBalancerIngress option" where
  "addressToIngress dnsName ipAddress =
     (if ipAddress \<noteq> None \<or> dnsName \<noteq> None then
        (let ingress = \<lparr>IP = '''', Hostname = ''''\<rparr>;
             ingress = (case dnsName of None \<Rightarrow> ingress | Some d \<Rightarrow> ingress\<lparr>Hostname := d\<rparr>);
             ingress = (case ipAddress of None \<Rightarrow> ingress | Some a \<Rightarrow> ingress\<lparr>IP := a\<rparr>)
         in Some ingress)
      else None)"

subsection \<open>Security group rules\<close>

text \<open>
  The three SDK structs the rule functions compare.  \<^verbatim>\<open>ecs.Permission\<close> is a rule
  as the provider reports it; the two request structs are rules as the bastion wants
  them.  Every field is a Go string.  The destination, policy and priority fields belong
  to the SDK structs; no function of the file reads them.
\<close>

record Permission =
  Description :: string
  IpProtocol :: string
  PortRange :: string
  SourceCidrIp :: string
  Ipv6SourceCidrIp :: string
  DestCidrIp :: string
  Ipv6DestCidrIp :: string
  DestGroupId :: string
  SourceGroupId :: string
  Policy :: string
  Priority :: string

record AuthorizeSecurityGroupRequest =
  in_SecurityGroupId :: string
  in_Description :: string
  in_IpProtocol :: string
  in_PortRange :: string
  in_SourceCidrIp :: string
  in_Ipv6SourceCidrIp :: string
  in_Policy :: string
  in_Priority :: string

record AuthorizeSecurityGroupEgressRequest =
  eg_SecurityGroupId :: string
  eg_Description :: string
  eg_IpProtocol :: string
  eg_PortRange :: string
  eg_SourceCidrIp :: string
  eg_DestCidrIp :: string
  eg_DestGroupId :: string
  eg_Policy :: string
  eg_Priority :: string

text \<open>
  \<^verbatim>\<open>equality.Semantic.DeepEqual\<close> on two Go strings is string equality.
\<close>

definition ingressRuleEqual :: "AuthorizeSecurityGroupRequest \<Rightarrow> Permission \<Rightarrow> bool" where
  "ingressRuleEqual a b =
     (if in_Description a \<noteq> Description b then False
      else if in_IpProtocol a \<noteq> IpProtocol b then False
      else if in_PortRange a \<noteq> PortRange b then False
      else if in_SourceCidrIp a \<noteq> SourceCidrIp b then False
      else if in_Ipv6SourceCidrIp a \<noteq> Ipv6SourceCidrIp b then False
      else True)"

definition egressRuleEqual :: "AuthorizeSecurityGroupEgressRequest \<Rightarrow> Permission \<Rightarrow> bool" where
  "egressRuleEqual a b =
     (if eg_Description a \<noteq> Description b then False
      else if eg_IpProtocol a \<noteq> IpProtocol b then False
      else if eg_PortRange a \<noteq> PortRange b then False
      else if eg_SourceCidrIp a \<noteq> SourceCidrIp b then False
      else True)"


text \<open>
  \<^verbatim>\<open>ingressRulesSymmetricDifference\<close> and \<^verbatim>\<open>egressRulesSymmetricDifference\<close>
  have the same body; they differ in the request type and in the equality they call.
  The four loops are written once, over the equality.  The wanted rules are a slice of
  pointers, and \<^verbatim>\<open>*wantedRule\<close> on a \<^verbatim>\<open>nil\<close> entry panics.

  \<open>foundInWanted\<close> is the inner loop of the first pass: it runs over the wanted rules
  and breaks at the first one equal to the current rule.
\<close>

fun foundInWanted :: "('r \<Rightarrow> Permission \<Rightarrow> bool) \<Rightarrow> 'r option list \<Rightarrow> Permission \<Rightarrow> failure + bool" where
  "foundInWanted eq [] currentRule = Inr False"
| "foundInWanted eq (None # wanted) currentRule = Inl (Panic NilPointerDereference)"
| "foundInWanted eq (Some wantedRule # wanted) currentRule =
     (if eq wantedRule currentRule then Inr True
      else foundInWanted eq wanted currentRule)"

text \<open>The first pass: every current rule that no wanted rule equals is appended to \<^verbatim>\<open>rulesToDelete\<close>.\<close>

fun collectRulesToDelete ::
  "('r \<Rightarrow> Permission \<Rightarrow> bool) \<Rightarrow> 'r option list \<Rightarrow> Permission list \<Rightarrow> Permission list
     \<Rightarrow> failure + Permission list" where
  "collectRulesToDelete eq wanted [] rulesToDelete = Inr rulesToDelete"
| "collectRulesToDelete eq wanted (currentRule # currentRules) rulesToDelete =
     (case foundInWanted eq wanted currentRule of
        Inl f \<Rightarrow> Inl f
      | Inr found \<Rightarrow>
          collectRulesToDelete eq wanted currentRules
            (if \<not> found then rulesToDelete @ [currentRule] else rulesToDelete))"

text \<open>
  The inner loop of the second pass: the wanted rule is dereferenced at every current
  rule it is compared with.
\<close>

fun foundInCurrent :: "('r \<Rightarrow> Permission \<Rightarrow> bool) \<Rightarrow> 'r option \<Rightarrow> Permission list \<Rightarrow> failure + bool" where
  "foundInCurrent eq wantedRule [] = Inr False"
| "foundInCurrent eq wantedRule (currentRule # currentRules) =
     (case wantedRule of
        None \<Rightarrow> Inl (Panic NilPointerDereference)
      | Some w \<Rightarrow>
          if eq w currentRule then Inr True
          else foundInCurrent eq wantedRule currentRules)"

text \<open>The second pass: every wanted rule that no current rule equals is appended to \<^verbatim>\<open>rulesToAdd\<close>.\<close>

fun collectRulesToAdd ::
  "('r \<Rightarrow> Permission \<Rightarrow> bool) \<Rightarrow> 'r option list \<Rightarrow> Permission list \<Rightarrow> 'r list
     \<Rightarrow> failure + 'r list" where
  "collectRulesToAdd eq [] currentRules rulesToAdd = Inr rulesToAdd"
| "collectRulesToAdd eq (wantedRule # wanted) currentRules rulesToAdd =
     (case foundInCurrent eq wantedRule currentRules of
        Inl f \<Rightarrow> Inl f
      | Inr found \<Rightarrow>
          if \<not> found then
            (case wantedRule of
               None \<Rightarrow> Inl (Panic NilPointerDereference)
             | Some w \<Rightarrow> collectRulesToAdd eq wanted currentRules (rulesToAdd @ [w]))
          else collectRulesToAdd eq wanted currentRules rulesToAdd)"

definition rulesSymmetricDifference ::
  "('r \<Rightarrow> Permission \<Rightarrow> bool) \<Rightarrow> 'r option list \<Rightarrow> Permission list
     \<Rightarrow> failure + ('r list \<times> Permission list)" where
  "rulesSymmetricDifference eq wanted currentRules =
     (case collectRulesToDelete eq wanted currentRules [] of
        Inl f \<Rightarrow> Inl f
      | Inr rulesToDelete \<Rightarrow>
          (case collectRulesToAdd eq wanted currentRules [] of
             Inl f \<Rightarrow> Inl f
           | Inr rulesToAdd \<Rightarrow> Inr (rulesToAdd, rulesToDelete)))"

definition ingressRulesSymmetricDifference ::
  "AuthorizeSecurityGroupRequest option list \<Rightarrow> Permission list
     \<Rightarrow> failure + (AuthorizeSecurityGroupRequest list \<times> Permission list)" where
  "ingressRulesSymmetricDifference wantedIngressRules currentRules =
     rulesSymmetricDifference ingressRuleEqual wantedIngressRules currentRules"

definition egressRulesSymmetricDifference ::
  "AuthorizeSecurityGroupEgressRequest option list \<Rightarrow> Permission list
     \<Rightarrow> failure + (AuthorizeSecurityGroupEgressRequest list \<times> Permission list)" where
  "egressRulesSymmetricDifference wantedIngressRules currentRules =
     rulesSymmetricDifference egressRuleEqual wantedIngressRules currentRules"

text \<open>
  What the specification asks of a rule difference, for an equality \<open>eq\<close> between a
  wanted and an observed rule: nothing to add is already observed, everything to delete
  is observed and unwanted, and the observed rules without the deleted ones, together
  with the added ones, are the wanted rules up to \<open>eq\<close>.
\<close>

definition ruleDiffCorrect ::
  "('r \<Rightarrow> Permission \<Rightarrow> bool) \<Rightarrow> 'r list \<Rightarrow> Permission list \<Rightarrow> 'r list \<Rightarrow> Permission list \<Rightarrow> bool" where
  "ruleDiffCorrect eq W Obs toAdd toDelete \<longleftrightarrow>
     (\<forall>a \<in> set toAdd. \<forall>ob \<in> set Obs. \<not> eq a ob) \<and>
     set toDelete \<subseteq> set Obs \<and>
     (\<forall>d \<in> set toDelete. \<forall>w \<in> set W. \<not> eq w d) \<and>
     set toAdd \<subseteq> set W \<and>
     (\<forall>w \<in> set W. w \<in> set toAdd \<or> (\<exists>ob \<in> set Obs - set toDelete. eq w ob)) \<and>
     (\<forall>ob \<in> set Obs - set toDelete. \<exists>w \<in> set W. eq w ob)"

text \<open>The wanted and the observed rules are the same up to \<open>eq\<close>.\<close>

definition sameRules :: "('r \<Rightarrow> Permission \<Rightarrow> bool) \<Rightarrow> 'r list \<Rightarrow> Permission list \<Rightarrow> bool" where
  "sameRules eq W Obs \<longleftrightarrow>
     (\<forall>w \<in> set W. \<exists>ob \<in> set Obs. eq w ob) \<and> (\<forall>ob \<in> set Obs. \<exists>w \<in> set W. eq w ob)"

subsection \<open>Provider responses\<close>

text \<open>
  The SDK structs the file reads, with the fields it reads.  A wrapper struct around a
  single slice is left out: \<open>Instances r\<close> is \<^verbatim>\<open>r.Instances.Instance\<close>,
  \<open>PrivateIpAddress i\<close> is \<^verbatim>\<open>i.VpcAttributes.PrivateIpAddress.IpAddress\<close>,
  \<open>SecurityGroups r\<close> is \<^verbatim>\<open>r.SecurityGroups.SecurityGroup\<close>,
  \<open>InstanceIdSets r\<close> is \<^verbatim>\<open>r.InstanceIdSets.InstanceIdSet\<close>,
  \<open>Permissions r\<close> is \<^verbatim>\<open>r.Permissions.Permission\<close>, and likewise for the three
  levels of the availability response.
\<close>

record Instance =
  InstanceId :: string
  InstanceName :: string
  Status :: string
  PrivateIpAddress :: "string list"

record DescribeInstancesResponse =
  Instances :: "Instance list"

record RunInstancesResponse =
  InstanceIdSets :: "string list"

record SecurityGroup =
  sg_SecurityGroupId :: string
  sg_SecurityGroupName :: string

record DescribeSecurityGroupsResponse =
  SecurityGroups :: "SecurityGroup list"

record CreateSecurityGroupResponse =
  created_SecurityGroupId :: string

record DescribeSecurityGroupAttributeResponse =
  Permissions :: "Permission list"

record AllocatePublicIpAddressResponse =
  IpAddress :: string

record SupportedResource =
  sr_Status :: string
  sr_Value :: string

record AvailableResource =
  SupportedResources :: "SupportedResource list"

record AvailableZone =
  AvailableResources :: "AvailableResource list"

record DescribeAvailableResourceResponse =
  AvailableZones :: "AvailableZone list"

text \<open>Requests that this file only hands on to the client.\<close>

record DescribeSecurityGroupAttributeRequest =
  dsga_SecurityGroupId :: string
  dsga_Direction :: string

record RevokeSecurityGroupRequest =
  rv_SecurityGroupId :: string
  rv_IpProtocol :: string
  rv_PortRange :: string
  rv_SourceCidrIp :: string
  rv_Ipv6SourceCidrIp :: string

record RevokeSecurityGroupEgressRequest =
  rve_SecurityGroupId :: string
  rve_IpProtocol :: string
  rve_PortRange :: string

subsection \<open>Options, cluster and bastion\<close>

record SecretReference =
  secret_Name :: string
  secret_Namespace :: string

record Options =
  BastionInstanceName :: string
  SecurityGroupName :: string
  ShootSecurityGroupName :: string
  VpcName :: string
  Region :: string
  SecretReference :: SecretReference
  UserData :: string

record Credentials =
  AccessKeyID :: string
  AccessKeySecret :: string

record VPCInfo =
  VPCID :: string
  VSwitchID :: string

record VSwitchInfo =
  ZoneID :: string

text \<open>
  \<open>MachineTypes cluster\<close> is \<^verbatim>\<open>cluster.CloudProfile.Spec.MachineTypes\<close>; of a
  machine type the file reads the name.
\<close>

record MachineType =
  mt_Name :: string

record Cluster =
  MachineTypes :: "MachineType list"

text \<open>
  The Bastion resource.  The file writes \<^verbatim>\<open>Status.Ingress\<close> and nothing else;
  metadata, spec and the rest of the status (\<^verbatim>\<open>Status.DefaultStatus\<close>) are
  content of any type.
\<close>

record ('m, 'sp, 'd) Bastion =
  ObjectMeta :: 'm
  Spec :: 'sp
  StatusDefault :: 'd
  StatusIngress :: "LoadBalancerIngress option"

subsection \<open>The world: provider state and observable effects\<close>

text \<open>
  A pass runs against a world: the state \<open>'s\<close> of everything outside the process (the
  provider, the API server), and the trace of what the pass did: the calls it made on
  its collaborators, the times it slept (\<^verbatim>\<open>time.Sleep\<close>) and the notes it logged
  (\<^verbatim>\<open>logger.Info\<close>).
\<close>

datatype apiop =
    OpReadCredentials | OpNewECSClient | OpNewVPCClient
  | OpGetVPCInfoByName | OpGetVSwitchesInfoByID
  | OpGetInstanceType | OpGetInstances | OpCreateInstances
  | OpGetSecurityGroup | OpCreateSecurityGroups
  | OpDescribeSecurityGroupAttribute
  | OpCreateIngressRule | OpRevokeIngressRule | OpCreateEgressRule | OpRevokeEgressRule
  | OpAllocatePublicIp | OpStatusPatch

datatype event = Called apiop | Slept int | Info string

record 's world =
  provider :: 's
  events :: "event list"

type_synonym ('s, 'a) action = "'s world \<Rightarrow> (failure + 'a) \<times> 's world"

definition invoke :: "apiop \<Rightarrow> ('s \<Rightarrow> 'r \<times> 's) \<Rightarrow> 's world \<Rightarrow> 'r \<times> 's world" where
  "invoke op f w =
     (case f (provider w) of
        (r, s') \<Rightarrow> (r, w\<lparr>provider := s', events := events w @ [Called op]\<rparr>))"

definition sleep :: "int \<Rightarrow> 's world \<Rightarrow> 's world" where
  "sleep d w = w\<lparr>events := events w @ [Slept d]\<rparr>"

definition logInfo :: "string \<Rightarrow> 's world \<Rightarrow> 's world" where
  "logInfo msg w = w\<lparr>events := events w @ [Info msg]\<rparr>"

text \<open>Returning a value, returning a failure, and logging, as steps of a pass.\<close>

definition ret :: "'a \<Rightarrow> ('s, 'a) action" where
  "ret x w = (Inr x, w)"

definition failWith :: "failure \<Rightarrow> ('s, 'a) action" where
  "failWith f w = (Inl f, w)"

definition info :: "string \<Rightarrow> ('s, unit) action" where
  "info msg w = (Inr (), logInfo msg w)"

text \<open>
  \<^verbatim>\<open>x, err := step(); if err != nil { return err }\<close> followed by the rest of the
  function: the rest runs on the value and the world the step leaves.
\<close>

definition andThen :: "('s, 'a) action \<Rightarrow> ('a \<Rightarrow> ('s, 'b) action) \<Rightarrow> ('s, 'b) action" where
  "andThen step rest w =
     (case step w of
        (Inl f, w') \<Rightarrow> (Inl f, w')
      | (Inr x, w') \<Rightarrow> rest x w')"

text \<open>A call on a collaborator whose error is returned as it is.\<close>

definition call :: "apiop \<Rightarrow> ('s \<Rightarrow> (goerror + 'a) \<times> 's) \<Rightarrow> ('s, 'a) action" where
  "call op f w =
     (case invoke op f w of
        (Inl err, w') \<Rightarrow> (Inl (Error err), w')
      | (Inr x, w') \<Rightarrow> (Inr x, w'))"

text \<open>A function without effects that returns a value or an error.\<close>

definition liftE :: "goerror + 'a \<Rightarrow> ('s, 'a) action" where
  "liftE r w =
     (case r of
        Inl err \<Rightarrow> (Inl (Error err), w)
      | Inr x \<Rightarrow> (Inr x, w))"

text \<open>A computation without effects that returns a value or panics.\<close>

definition liftF :: "failure + 'a \<Rightarrow> ('s, 'a) action" where
  "liftF r w = (r, w)"

subsection \<open>Collaborators\<close>

text \<open>
  The interface \<^verbatim>\<open>aliclient.ECS\<close>, with the methods the file calls.  A method
  takes the provider state and returns its result with the new state; a response is a
  pointer and may be \<^verbatim>\<open>nil\<close>.
\<close>

record 's ECS =
  GetInstanceType :: "int \<Rightarrow> string \<Rightarrow> 's \<Rightarrow> (goerror + DescribeAvailableResourceResponse option) \<times> 's"
  GetInstances :: "string \<Rightarrow> 's \<Rightarrow> (goerror + DescribeInstancesResponse option) \<times> 's"
  CreateInstances ::
    "string \<Rightarrow> string \<Rightarrow> string \<Rightarrow> string \<Rightarrow> string \<Rightarrow> string \<Rightarrow> string \<Rightarrow> 's
       \<Rightarrow> (goerror + RunInstancesResponse option) \<times> 's"
  GetSecurityGroup :: "string \<Rightarrow> 's \<Rightarrow> (goerror + DescribeSecurityGroupsResponse option) \<times> 's"
  CreateSecurityGroups :: "string \<Rightarrow> string \<Rightarrow> 's \<Rightarrow> (goerror + CreateSecurityGroupResponse option) \<times> 's"
  DescribeSecurityGroupAttribute ::
    "DescribeSecurityGroupAttributeRequest \<Rightarrow> 's
       \<Rightarrow> (goerror + DescribeSecurityGroupAttributeResponse option) \<times> 's"
  CreateIngressRule :: "AuthorizeSecurityGroupRequest \<Rightarrow> 's \<Rightarrow> goerror option \<times> 's"
  RevokeIngressRule :: "RevokeSecurityGroupRequest \<Rightarrow> 's \<Rightarrow> goerror option \<times> 's"
  CreateEgressRule :: "AuthorizeSecurityGroupEgressRequest \<Rightarrow> 's \<Rightarrow> goerror option \<times> 's"
  RevokeEgressRule :: "RevokeSecurityGroupEgressRequest \<Rightarrow> 's \<Rightarrow> goerror option \<times> 's"
  AllocatePublicIp :: "string \<Rightarrow> 's \<Rightarrow> (goerror + AllocatePublicIpAddressResponse option) \<times> 's"

record 's VPC =
  GetVPCInfoByName :: "string \<Rightarrow> 's \<Rightarrow> (goerror + VPCInfo) \<times> 's"
  GetVSwitchesInfoByID :: "string \<Rightarrow> 's \<Rightarrow> (goerror + VSwitchInfo) \<times> 's"

text \<open>
  \<^verbatim>\<open>client.MergeFrom(snapshot)\<close>: a merge patch, which remembers the object it
  was taken from.
\<close>

datatype ('m, 'sp, 'd) Patch = MergeFrom "('m, 'sp, 'd) Bastion"

text \<open>
  The actuator: its client factory (\<^verbatim>\<open>a.newClientFactory\<close>) and the status
  writer of its Kubernetes client (\<^verbatim>\<open>a.client.Status().Patch\<close>), which returns
  an error or \<^verbatim>\<open>nil\<close> and leaves the object as the server answered.
\<close>

record ('s, 'm, 'sp, 'd) actuator =
  NewECSClient :: "string \<Rightarrow> string \<Rightarrow> string \<Rightarrow> 's \<Rightarrow> (goerror + 's ECS) \<times> 's"
  NewVPCClient :: "string \<Rightarrow> string \<Rightarrow> string \<Rightarrow> 's \<Rightarrow> (goerror + 's VPC) \<times> 's"
  StatusPatch ::
    "('m, 'sp, 'd) Bastion \<Rightarrow> ('m, 'sp, 'd) Patch \<Rightarrow> 's
       \<Rightarrow> (goerror option \<times> ('m, 'sp, 'd) Bastion) \<times> 's"

text \<open>
  The functions of the package and of \<^verbatim>\<open>pkg/alicloud\<close> that the file calls and
  that are declared in other files.  They are parameters of the model.  An entry of
  \<^verbatim>\<open>ingressPermissions\<close> is an entry of the bastion's CIDR allowlist; the rule
  builders return pointers.
\<close>

record ('s, 'm, 'sp, 'd) package =
  DetermineOptions :: "('m, 'sp, 'd) Bastion \<Rightarrow> Cluster \<Rightarrow> goerror + Options"
  ReadCredentialsFromSecretRef :: "SecretReference \<Rightarrow> 's \<Rightarrow> (goerror + Credentials) \<times> 's"
  getImageID :: "Cluster \<Rightarrow> Options \<Rightarrow> goerror + string"
  ingressPermissions :: "('m, 'sp, 'd) Bastion \<Rightarrow> goerror + string list"
  ingressAllowSSH :: "string \<Rightarrow> string \<Rightarrow> AuthorizeSecurityGroupRequest option"
  egressAllowSSHToWorker :: "string \<Rightarrow> string \<Rightarrow> string \<Rightarrow> AuthorizeSecurityGroupEgressRequest option"
  egressDenyAll :: "string \<Rightarrow> AuthorizeSecurityGroupEgressRequest option"
  describeSecurityGroupAttributeRequest :: "string \<Rightarrow> string \<Rightarrow> DescribeSecurityGroupAttributeRequest"
  revokeSecurityGroupRequest ::
    "string \<Rightarrow> string \<Rightarrow> string \<Rightarrow> string \<Rightarrow> string \<Rightarrow> RevokeSecurityGroupRequest"
  revokeSecurityGroupEgressRequest :: "string \<Rightarrow> string \<Rightarrow> string \<Rightarrow> RevokeSecurityGroupEgressRequest"

subsection \<open>Ensuring the security group and the instance\<close>

text \<open>
  \<^verbatim>\<open>ensureSecurityGroup\<close>: look the group up by name; when the first group of the
  response has that name, return its id, otherwise create the group.  The response is
  dereferenced without a \<^verbatim>\<open>nil\<close> check.
\<close>

definition createSecurityGroup :: "'s ECS \<Rightarrow> string \<Rightarrow> string \<Rightarrow> ('s, string) action" where
  "createSecurityGroup c securityGroupName vpcID =
     andThen (info ''creating Security Group'') (\<lambda>_.
     andThen (call OpCreateSecurityGroups (CreateSecurityGroups c vpcID securityGroupName))
       (\<lambda>createResponse.
          case createResponse of
            None \<Rightarrow> failWith (Panic NilPointerDereference)
          | Some r \<Rightarrow> ret (created_SecurityGroupId r)))"

definition ensureSecurityGroup :: "'s ECS \<Rightarrow> string \<Rightarrow> string \<Rightarrow> ('s, string) action" where
  "ensureSecurityGroup c securityGroupName vpcID =
     andThen (call OpGetSecurityGroup (GetSecurityGroup c securityGroupName)) (\<lambda>response.
       case response of
         None \<Rightarrow> failWith (Panic NilPointerDereference)
       | Some r \<Rightarrow>
           (case SecurityGroups r of
              [] \<Rightarrow> createSecurityGroup c securityGroupName vpcID
            | sg # _ \<Rightarrow>
                if sg_SecurityGroupName sg = securityGroupName then
                  andThen (info ''Security Group found'') (\<lambda>_. ret (sg_SecurityGroupId sg))
                else createSecurityGroup c securityGroupName vpcID))"

text \<open>
  \<^verbatim>\<open>ensureComputeInstance\<close>: the same for the instance.  The first id of the
  creation response is read without a check of its length.
\<close>

definition createInstance ::
  "'s ECS \<Rightarrow> Options \<Rightarrow> string \<Rightarrow> string \<Rightarrow> string \<Rightarrow> string \<Rightarrow> string \<Rightarrow> ('s, string) action" where
  "createInstance c opt securityGroupID imageID vSwitchId zoneID instanceTypeID =
     andThen (info ''creating new bastion compute instance'') (\<lambda>_.
     andThen (call OpCreateInstances
                (CreateInstances c (BastionInstanceName opt) securityGroupID imageID vSwitchId
                   zoneID instanceTypeID (UserData opt)))
       (\<lambda>instance.
          case instance of
            None \<Rightarrow> failWith (Panic NilPointerDereference)
          | Some r \<Rightarrow>
              (case InstanceIdSets r of
                 [] \<Rightarrow> failWith (Panic IndexOutOfRange)
               | instanceId # _ \<Rightarrow> ret instanceId)))"

definition ensureComputeInstance ::
  "'s ECS \<Rightarrow> Options \<Rightarrow> string \<Rightarrow> string \<Rightarrow> string \<Rightarrow> string \<Rightarrow> string \<Rightarrow> ('s, string) action" where
  "ensureComputeInstance c opt securityGroupID imageID vSwitchId zoneID instanceTypeID =
     andThen (call OpGetInstances (GetInstances c (BastionInstanceName opt))) (\<lambda>response.
       case response of
         None \<Rightarrow> failWith (Panic NilPointerDereference)
       | Some r \<Rightarrow>
           (case Instances r of
              [] \<Rightarrow> createInstance c opt securityGroupID imageID vSwitchId zoneID instanceTypeID
            | i # _ \<Rightarrow>
                if InstanceName i = BastionInstanceName opt then ret (InstanceId i)
                else createInstance c opt securityGroupID imageID vSwitchId zoneID instanceTypeID))"

subsection \<open>Readiness\<close>

text \<open>
  \<^verbatim>\<open>isInstanceReady\<close> returns a pair \<^verbatim>\<open>(bool, error)\<close>, as in the source:
  \<open>None\<close> is the \<^verbatim>\<open>nil\<close> error.  When the instance is found and is not running,
  it sleeps ten seconds and then returns \<^verbatim>\<open>false\<close> together with an error.
\<close>

definition isInstanceReady :: "'s ECS \<Rightarrow> Options \<Rightarrow> 's world \<Rightarrow> (bool \<times> goerror option) \<times> 's world" where
  "isInstanceReady c opt w =
     (case invoke OpGetInstances (GetInstances c (BastionInstanceName opt)) w of
        (Inl err, w') \<Rightarrow> ((False, Some err), w')
      | (Inr response, w') \<Rightarrow>
          (case response of
             None \<Rightarrow> ((False, Some (Err ''bastion instance not yet created'')), w')
           | Some r \<Rightarrow>
               (case Instances r of
                  [] \<Rightarrow> ((False, Some (Err ''bastion instance not yet created'')), w')
                | i # _ \<Rightarrow>
                    if Status i = ''Running'' then ((True, None), w')
                    else ((False, Some (Err ''bastion instance not yet in Running status'')),
                          sleep (10 * Second) w'))))"

text \<open>
  \<^verbatim>\<open>getInstanceEndpoints\<close>: the first private IP of the running instance is read
  without a check that there is one.
\<close>

definition getInstanceEndpoints :: "'s ECS \<Rightarrow> Options \<Rightarrow> string \<Rightarrow> ('s, bastionEndpoints option) action" where
  "getInstanceEndpoints c opt ip =
     andThen (call OpGetInstances (GetInstances c (BastionInstanceName opt))) (\<lambda>response.
       case response of
         None \<Rightarrow> failWith (Error (Err ''compute instance can't be nil''))
       | Some r \<Rightarrow>
           (case Instances r of
              [] \<Rightarrow> failWith (Error (Err ''compute instance not ready yet''))
            | instance # _ \<Rightarrow>
                if Status instance \<noteq> ''Running'' then
                  failWith (Error (Err ''compute instance not ready yet''))
                else
                  (case PrivateIpAddress instance of
                     [] \<Rightarrow> failWith (Panic IndexOutOfRange)
                   | internalIP # _ \<Rightarrow>
                       (let endpoints = \<lparr>be_private = None, be_public = None\<rparr>;
                            endpoints =
                              (case addressToIngress None (Some internalIP) of
                                 None \<Rightarrow> endpoints
                               | Some ingress \<Rightarrow> endpoints\<lparr>be_private := Some ingress\<rparr>);
                            endpoints =
                              (case addressToIngress None (Some ip) of
                                 None \<Rightarrow> endpoints
                               | Some ingress \<Rightarrow> endpoints\<lparr>be_public := Some ingress\<rparr>)
                        in ret (Some endpoints)))))"

subsection \<open>Reconciling the rules\<close>

text \<open>The four loops that apply a rule difference; a failing call ends the loop with the wrapped error.\<close>

fun createIngressRules :: "'s ECS \<Rightarrow> AuthorizeSecurityGroupRequest list \<Rightarrow> ('s, unit) action" where
  "createIngressRules c [] w = (Inr (), w)"
| "createIngressRules c (rule # rules) w =
     (case invoke OpCreateIngressRule (CreateIngressRule c rule) w of
        (Some err, w') \<Rightarrow>
          (Inl (Error (Wrap (''failed to add security group rule '' @ in_Description rule @ '': '') err)), w')
      | (None, w') \<Rightarrow> createIngressRules c rules w')"

fun revokeIngressRules ::
  "'s ECS \<Rightarrow> ('s, 'm, 'sp, 'd) package \<Rightarrow> string \<Rightarrow> Permission list \<Rightarrow> ('s, unit) action" where
  "revokeIngressRules c p securityGroupId [] w = (Inr (), w)"
| "revokeIngressRules c p securityGroupId (rule # rules) w =
     (case invoke OpRevokeIngressRule
             (RevokeIngressRule c
                (revokeSecurityGroupRequest p securityGroupId (IpProtocol rule) (PortRange rule)
                   (SourceCidrIp rule) (Ipv6SourceCidrIp rule))) w of
        (Some err, w') \<Rightarrow>
          (Inl (Error (Wrap (''failed to delete security group rule '' @ Description rule @ '': '') err)), w')
      | (None, w') \<Rightarrow> revokeIngressRules c p securityGroupId rules w')"

fun createEgressRules :: "'s ECS \<Rightarrow> AuthorizeSecurityGroupEgressRequest list \<Rightarrow> ('s, unit) action" where
  "createEgressRules c [] w = (Inr (), w)"
| "createEgressRules c (rule # rules) w =
     (case invoke OpCreateEgressRule (CreateEgressRule c rule) w of
        (Some err, w') \<Rightarrow>
          (Inl (Error (Wrap (''failed to add security group egress rule '' @ eg_Description rule @ '': '') err)), w')
      | (None, w') \<Rightarrow> createEgressRules c rules w')"

fun revokeEgressRules ::
  "'s ECS \<Rightarrow> ('s, 'm, 'sp, 'd) package \<Rightarrow> string \<Rightarrow> Permission list \<Rightarrow> ('s, unit) action" where
  "revokeEgressRules c p securityGroupId [] w = (Inr (), w)"
| "revokeEgressRules c p securityGroupId (rule # rules) w =
     (case invoke OpRevokeEgressRule
             (RevokeEgressRule c
                (revokeSecurityGroupEgressRequest p securityGroupId (IpProtocol rule) (PortRange rule))) w of
        (Some err, w') \<Rightarrow>
          (Inl (Error (Wrap (''failed to delete security egress group rule '' @ Description rule @ '': '') err)), w')
      | (None, w') \<Rightarrow> revokeEgressRules c p securityGroupId rules w')"

text \<open>The first half of \<^verbatim>\<open>ensureSecurityGroupRules\<close>: the ingress rules.\<close>

definition ensureIngressRules ::
  "'s ECS \<Rightarrow> ('s, 'm, 'sp, 'd) package \<Rightarrow> ('m, 'sp, 'd) Bastion \<Rightarrow> string \<Rightarrow> ('s, unit) action" where
  "ensureIngressRules c p bastion securityGroupId =
     andThen (liftE (ingressPermissions p bastion)) (\<lambda>permissions.
     let wantedIngressRules = map (ingressAllowSSH p securityGroupId) permissions in
     andThen (call OpDescribeSecurityGroupAttribute
                (DescribeSecurityGroupAttribute c
                   (describeSecurityGroupAttributeRequest p securityGroupId ''ingress'')))
       (\<lambda>currentIngressRules.
          case currentIngressRules of
            None \<Rightarrow> failWith (Panic NilPointerDereference)
          | Some cur \<Rightarrow>
              andThen (liftF (ingressRulesSymmetricDifference wantedIngressRules (Permissions cur)))
                (\<lambda>(rulesToAddIngress, rulesToDelete).
                   andThen (createIngressRules c rulesToAddIngress) (\<lambda>_.
                   revokeIngressRules c p securityGroupId rulesToDelete))))"

text \<open>
  The second half: the egress rules towards the shoot's security group.
  \<open>applyEgressRules\<close> is its last part, from the description of the current egress
  rules on.
\<close>

definition applyEgressRules ::
  "'s ECS \<Rightarrow> ('s, 'm, 'sp, 'd) package \<Rightarrow> string \<Rightarrow> AuthorizeSecurityGroupEgressRequest option list
     \<Rightarrow> ('s, unit) action" where
  "applyEgressRules c p securityGroupId wantedEgressRules =
     andThen (call OpDescribeSecurityGroupAttribute
                (DescribeSecurityGroupAttribute c
                   (describeSecurityGroupAttributeRequest p securityGroupId ''egress'')))
       (\<lambda>currentEgressRules.
          case currentEgressRules of
            None \<Rightarrow> failWith (Panic NilPointerDereference)
          | Some cur \<Rightarrow>
              andThen (liftF (egressRulesSymmetricDifference wantedEgressRules (Permissions cur)))
                (\<lambda>(rulesToAddEgress, rulesToDelete).
                   andThen (createEgressRules c rulesToAddEgress) (\<lambda>_.
                   revokeEgressRules c p securityGroupId rulesToDelete)))"

definition ensureEgressRules ::
  "'s ECS \<Rightarrow> ('s, 'm, 'sp, 'd) package \<Rightarrow> Options \<Rightarrow> string \<Rightarrow> ('s, unit) action" where
  "ensureEgressRules c p opt securityGroupId =
     andThen (call OpGetSecurityGroup (GetSecurityGroup c (ShootSecurityGroupName opt)))
       (\<lambda>shootSecurityGroupResponse.
          case shootSecurityGroupResponse of
            None \<Rightarrow> failWith (Panic NilPointerDereference)
          | Some sgr \<Rightarrow>
              (case SecurityGroups sgr of
                 [] \<Rightarrow> failWith (Error (Err ''shoot security group not found''))
               | shootSecurityGroup # _ \<Rightarrow>
                   andThen (call OpGetInstances (GetInstances c (BastionInstanceName opt)))
                     (\<lambda>instanceResponse.
                        case instanceResponse of
                          None \<Rightarrow> failWith (Panic NilPointerDereference)
                        | Some ir \<Rightarrow>
                            (case Instances ir of
                               [] \<Rightarrow> failWith (Error (Err ''bastion instance does not have a private ip''))
                             | instance # _ \<Rightarrow>
                                 (case PrivateIpAddress instance of
                                    [] \<Rightarrow>
                                      failWith (Error (Err ''bastion instance does not have a private ip''))
                                  | privateIP # _ \<Rightarrow>
                                      applyEgressRules c p securityGroupId
                                        [egressAllowSSHToWorker p privateIP securityGroupId
                                           (sg_SecurityGroupId shootSecurityGroup),
                                         egressDenyAll p securityGroupId])))))"

definition ensureSecurityGroupRules ::
  "'s ECS \<Rightarrow> ('s, 'm, 'sp, 'd) package \<Rightarrow> Options \<Rightarrow> ('m, 'sp, 'd) Bastion \<Rightarrow> string
     \<Rightarrow> ('s, unit) action" where
  "ensureSecurityGroupRules c p opt bastion securityGroupId =
     andThen (ensureIngressRules c p bastion securityGroupId) (\<lambda>_.
     ensureEgressRules c p opt securityGroupId)"

subsection \<open>The reconcile pass\<close>

text \<open>
  The test of the probing loop: \<open>None\<close> when the loop continues (no response, an empty
  list at one of the three levels, or a first status other than \<^verbatim>\<open>"Available"\<close>),
  and the first supported resource otherwise.
\<close>

definition availableInstanceType :: "DescribeAvailableResourceResponse option \<Rightarrow> SupportedResource option" where
  "availableInstanceType instanceType =
     (case instanceType of
        None \<Rightarrow> None
      | Some t \<Rightarrow>
          (case AvailableZones t of
             [] \<Rightarrow> None
           | zone # _ \<Rightarrow>
               (case AvailableResources zone of
                  [] \<Rightarrow> None
                | resource # _ \<Rightarrow>
                    (case SupportedResources resource of
                       [] \<Rightarrow> None
                     | supported # _ \<Rightarrow>
                         if sr_Status supported \<noteq> ''Available'' then None else Some supported))))"

text \<open>
  The loop \<^verbatim>\<open>for cores := 1; cores <= 2; cores++\<close>, entered at \<open>cores\<close>.  It
  returns the value of \<^verbatim>\<open>instanceTypeId\<close> after the loop, which is still empty
  when no probe was available.
\<close>

function probeInstanceTypes :: "'s ECS \<Rightarrow> string \<Rightarrow> int \<Rightarrow> ('s, string) action" where
  "probeInstanceTypes c zoneID cores w =
     (if cores \<le> 2 then
        (case invoke OpGetInstanceType (GetInstanceType c cores zoneID) w of
           (Inl err, w') \<Rightarrow> (Inl (Error err), w')
         | (Inr instanceType, w') \<Rightarrow>
             (case availableInstanceType instanceType of
                None \<Rightarrow> probeInstanceTypes c zoneID (cores + 1) w'
              | Some supported \<Rightarrow> (Inr (sr_Value supported), w')))
      else (Inr [], w))"
  by pat_completeness auto
termination
  by (relation "measure (\<lambda>(c, zoneID, cores, w). nat (3 - cores))") auto

declare probeInstanceTypes.simps [simp del]

text \<open>Lines 88 to 114 of \<^verbatim>\<open>Reconcile\<close>: the instance type of the pass.\<close>

definition Reconcile_instanceTypeId :: "'s ECS \<Rightarrow> Cluster \<Rightarrow> string \<Rightarrow> ('s, string) action" where
  "Reconcile_instanceTypeId c cluster zoneID =
     andThen (probeInstanceTypes c zoneID 1) (\<lambda>instanceTypeId.
       if instanceTypeId = [] then
         (case MachineTypes cluster of
            [] \<Rightarrow>
              failWith (Error (Err (''failed to determine instanceTypeId from cloud profile as fallback. ''
                @ ''Machine types missing from cloud profile'')))
          | machineType # _ \<Rightarrow>
              andThen (info ''falling back to first machine type of cloud profile as bastion instance type id'')
                (\<lambda>_. ret (mt_Name machineType)))
       else ret instanceTypeId)"

text \<open>Lines 126 to 136: the instance readiness check and what the pass makes of its result.\<close>

definition Reconcile_instanceReady :: "'s ECS \<Rightarrow> Options \<Rightarrow> ('s, unit) action" where
  "Reconcile_instanceReady c opt w =
     (case isInstanceReady c opt w of
        ((ready, Some err), w') \<Rightarrow>
          (Inl (Error (Wrap ''failed to check for bastion instance: '' err)), w')
      | ((ready, None), w') \<Rightarrow>
          if \<not> ready then
            (Inl (Error (RequeueAfterError (10 * Second) (Err ''bastion instance not ready yet''))), w')
          else (Inr (), w'))"

text \<open>Lines 148 to 160: the endpoints of the instance and their readiness.\<close>

definition Reconcile_endpoints :: "'s ECS \<Rightarrow> Options \<Rightarrow> string \<Rightarrow> ('s, bastionEndpoints option) action" where
  "Reconcile_endpoints c opt ip =
     andThen (getInstanceEndpoints c opt ip) (\<lambda>endpoints.
       if \<not> Ready endpoints then
         failWith (Error (RequeueAfterError (5 * Second)
           (Err ''bastion instance has no public/private endpoints yet'')))
       else ret endpoints)"

text \<open>
  Lines 88 to 160: from the choice of the instance type to the endpoints, with the
  client, the options, the image and the network that the first lines of the pass
  resolved.
\<close>

definition Reconcile_resources ::
  "'s ECS \<Rightarrow> ('s, 'm, 'sp, 'd) package \<Rightarrow> Options \<Rightarrow> ('m, 'sp, 'd) Bastion \<Rightarrow> Cluster \<Rightarrow> string
     \<Rightarrow> VPCInfo \<Rightarrow> VSwitchInfo \<Rightarrow> ('s, bastionEndpoints option) action" where
  "Reconcile_resources aliCloudECSClient p opt bastion cluster imageID vpcInfo vSwitchInfo =
     andThen (Reconcile_instanceTypeId aliCloudECSClient cluster (ZoneID vSwitchInfo)) (\<lambda>instanceTypeId.
     andThen (ensureSecurityGroup aliCloudECSClient (SecurityGroupName opt) (VPCID vpcInfo))
       (\<lambda>securityGroupID.
     andThen (ensureComputeInstance aliCloudECSClient opt securityGroupID imageID (VSwitchID vpcInfo)
                (ZoneID vSwitchInfo) instanceTypeId)
       (\<lambda>instanceID.
     andThen (Reconcile_instanceReady aliCloudECSClient opt) (\<lambda>_.
     andThen (ensureSecurityGroupRules aliCloudECSClient p opt bastion securityGroupID) (\<lambda>_.
     andThen (call OpAllocatePublicIp (AllocatePublicIp aliCloudECSClient instanceID)) (\<lambda>publicIP.
       case publicIP of
         None \<Rightarrow> failWith (Panic NilPointerDereference)
       | Some allocated \<Rightarrow> Reconcile_endpoints aliCloudECSClient opt (IpAddress allocated)))))))"

text \<open>
  Lines 50 to 160: everything before the publication.  It returns the endpoints with
  which the pass goes on to publish.
\<close>

definition Reconcile_converge ::
  "('s, 'm, 'sp, 'd) actuator \<Rightarrow> ('s, 'm, 'sp, 'd) package \<Rightarrow> ('m, 'sp, 'd) Bastion \<Rightarrow> Cluster
     \<Rightarrow> ('s, bastionEndpoints option) action" where
  "Reconcile_converge a p bastion cluster =
     andThen (liftE (DetermineOptions p bastion cluster)) (\<lambda>opt.
     andThen (call OpReadCredentials (ReadCredentialsFromSecretRef p (SecretReference opt))) (\<lambda>credentials.
     andThen (call OpNewECSClient
                (NewECSClient a (Region opt) (AccessKeyID credentials) (AccessKeySecret credentials)))
       (\<lambda>aliCloudECSClient.
     andThen (call OpNewVPCClient
                (NewVPCClient a (Region opt) (AccessKeyID credentials) (AccessKeySecret credentials)))
       (\<lambda>aliCloudVPCClient.
     andThen (liftE (getImageID p cluster opt)) (\<lambda>imageID.
     andThen (call OpGetVPCInfoByName (GetVPCInfoByName aliCloudVPCClient (VpcName opt))) (\<lambda>vpcInfo.
     andThen (call OpGetVSwitchesInfoByID (GetVSwitchesInfoByID aliCloudVPCClient (VSwitchID vpcInfo)))
       (\<lambda>vSwitchInfo.
        Reconcile_resources aliCloudECSClient p opt bastion cluster imageID vpcInfo vSwitchInfo)))))))"

text \<open>
  Lines 162 to 166: the publication.  The patch is taken from a copy of the bastion as
  the pass received it, the public endpoint is assigned to \<^verbatim>\<open>Status.Ingress\<close>,
  and the object and the patch go to the status writer.  The result is the error of the
  writer (\<open>None\<close> for \<^verbatim>\<open>nil\<close>) and the object as it is after the call.
\<close>

definition Reconcile_publish ::
  "('s, 'm, 'sp, 'd) actuator \<Rightarrow> ('m, 'sp, 'd) Bastion \<Rightarrow> bastionEndpoints option \<Rightarrow> 's world
     \<Rightarrow> (failure option \<times> ('m, 'sp, 'd) Bastion) \<times> 's world" where
  "Reconcile_publish a bastion endpoints w =
     (case endpoints of
        None \<Rightarrow> ((Some (Panic NilPointerDereference), bastion), w)
      | Some e \<Rightarrow>
          (let patch = MergeFrom bastion;
               bastion = bastion\<lparr>StatusIngress := be_public e\<rparr>
           in case invoke OpStatusPatch (StatusPatch a bastion patch) w of
                ((err, bastion), w') \<Rightarrow> ((map_option Error err, bastion), w')))"

definition Reconcile ::
  "('s, 'm, 'sp, 'd) actuator \<Rightarrow> ('s, 'm, 'sp, 'd) package \<Rightarrow> ('m, 'sp, 'd) Bastion \<Rightarrow> Cluster \<Rightarrow> 's world
     \<Rightarrow> (failure option \<times> ('m, 'sp, 'd) Bastion) \<times> 's world" where
  "Reconcile a p bastion cluster w =
     (case Reconcile_converge a p bastion cluster w of
        (Inl f, w') \<Rightarrow> ((Some f, bastion), w')
      | (Inr endpoints, w') \<Rightarrow> Reconcile_publish a bastion endpoints w')"

text \<open>The times a pass slept, in order.\<close>

fun isSleep :: "event \<Rightarrow> bool" where
  "isSleep (Slept d) = True"
| "isSleep (Called op) = False"
| "isSleep (Info msg) = False"

definition sleeps :: "'s world \<Rightarrow> event list" where
  "sleeps w = filter isSleep (events w)"

text \<open>A retry signal, as opposed to any other error.\<close>

fun isRetrySignal :: "failure \<Rightarrow> bool" where
  "isRetrySignal (Error (RequeueAfterError d cause)) = True"
| "isRetrySignal (Error (Err msg)) = False"
| "isRetrySignal (Error (Wrap msg err)) = False"
| "isRetrySignal (Panic p) = False"

subsection \<open>Merge patches\<close>

text \<open>
  The body of a merge patch, for the four parts of a bastion: a part that is the same in
  the snapshot and in the object is left out (\<open>None\<close>), a part that differs is named
  with its content in the object.  This is what \<^verbatim>\<open>client.MergeFrom\<close> of the
  controller runtime computes when the patch is sent; \<open>applyMergePatch\<close> is what the
  server does with it on the object it has persisted.
\<close>

record ('m, 'sp, 'd) MergePatchData =
  set_ObjectMeta :: "'m option"
  set_Spec :: "'sp option"
  set_StatusDefault :: "'d option"
  set_StatusIngress :: "LoadBalancerIngress option option"

definition patchData :: "('m, 'sp, 'd) Patch \<Rightarrow> ('m, 'sp, 'd) Bastion \<Rightarrow> ('m, 'sp, 'd) MergePatchData" where
  "patchData patch obj =
     (case patch of
        MergeFrom snapshot \<Rightarrow>
          \<lparr>set_ObjectMeta =
             (if ObjectMeta obj = ObjectMeta snapshot then None else Some (ObjectMeta obj)),
           set_Spec = (if Spec obj = Spec snapshot then None else Some (Spec obj)),
           set_StatusDefault =
             (if StatusDefault obj = StatusDefault snapshot then None else Some (StatusDefault obj)),
           set_StatusIngress =
             (if StatusIngress obj = StatusIngress snapshot then None else Some (StatusIngress obj))\<rparr>)"

definition applyMergePatch ::
  "('m, 'sp, 'd) MergePatchData \<Rightarrow> ('m, 'sp, 'd) Bastion \<Rightarrow> ('m, 'sp, 'd) Bastion" where
  "applyMergePatch d persisted =
     \<lparr>ObjectMeta = (case set_ObjectMeta d of None \<Rightarrow> ObjectMeta persisted | Some m \<Rightarrow> m),
      Spec = (case set_Spec d of None \<Rightarrow> Spec persisted | Some sp \<Rightarrow> sp),
      StatusDefault = (case set_StatusDefault d of None \<Rightarrow> StatusDefault persisted | Some st \<Rightarrow> st),
      StatusIngress = (case set_StatusIngress d of None \<Rightarrow> StatusIngress persisted | Some i \<Rightarrow> i)\<rparr>"

subsection \<open>Notions used in the statements\<close>

text \<open>The events that a step added to the trace, given the world before and after it.\<close>

definition newEvents :: "'s world \<Rightarrow> 's world \<Rightarrow> event list" where
  "newEvents w w' = drop (length (events w)) (events w')"

text \<open>
  The resource that a lookup response yields for a name, the way both ensure functions
  read it: the first entry, when it carries the name.
\<close>

definition foundSecurityGroup :: "DescribeSecurityGroupsResponse \<Rightarrow> string \<Rightarrow> SecurityGroup option" where
  "foundSecurityGroup r name =
     (case SecurityGroups r of
        [] \<Rightarrow> None
      | sg # _ \<Rightarrow> if sg_SecurityGroupName sg = name then Some sg else None)"

definition foundInstance :: "DescribeInstancesResponse \<Rightarrow> string \<Rightarrow> Instance option" where
  "foundInstance r name =
     (case Instances r of
        [] \<Rightarrow> None
      | i # _ \<Rightarrow> if InstanceName i = name then Some i else None)"

text \<open>The instance that the two readiness checks look at: the first entry of the response, if any.\<close>

definition firstInstance :: "DescribeInstancesResponse option \<Rightarrow> Instance option" where
  "firstInstance response =
     (case response of
        None \<Rightarrow> None
      | Some r \<Rightarrow> (case Instances r of [] \<Rightarrow> None | i # _ \<Rightarrow> Some i))"

text \<open>
  A step that never sleeps, and a step that sleeps only where \<open>isInstanceReady\<close>
  sleeps: when the step has slept, it ended in the world in which a call of
  \<open>isInstanceReady\<close> returned after its sleep of ten seconds, nothing slept before
  that call, and the step failed with the wrapped error of the check.
\<close>

definition neverSleeps :: "('s, 'a) action \<Rightarrow> bool" where
  "neverSleeps step \<longleftrightarrow> (\<forall>w. sleeps (snd (step w)) = sleeps w)"

definition sleepsOnlyInReadinessCheck :: "('s, 'a) action \<Rightarrow> bool" where
  "sleepsOnlyInReadinessCheck step \<longleftrightarrow>
     (\<forall>w. sleeps (snd (step w)) = sleeps w \<or>
          (\<exists>(c :: 's ECS) opt w0.
             sleeps w0 = sleeps w \<and>
             snd (step w) = snd (isInstanceReady c opt w0) \<and>
             sleeps (snd (isInstanceReady c opt w0)) = sleeps w0 @ [Slept (10 * Second)] \<and>
             fst (step w) = Inl (Error (Wrap ''failed to check for bastion instance: ''
               (Err ''bastion instance not yet in Running status'')))))"

subsection \<open>An example provider\<close>

text \<open>
  A small provider in memory, an actuator and a package over it, and the request of the
  specification's scenario.  The theorems below are instantiated at them.
\<close>

text \<open>
  Concrete rules: the bastion's deny-all egress rule, an observed rule that accepts the
  same traffic to another destination, and an SSH ingress rule with the rule the provider
  reports for it.
\<close>

definition exampleEgressDenyAll :: AuthorizeSecurityGroupEgressRequest where
  "exampleEgressDenyAll =
     \<lparr>eg_SecurityGroupId = ''sg-1'', eg_Description = ''Bastion egress deny'',
      eg_IpProtocol = ''all'', eg_PortRange = ''-1/-1'', eg_SourceCidrIp = [],
      eg_DestCidrIp = ''0.0.0.0/0'', eg_DestGroupId = [], eg_Policy = ''drop'',
      eg_Priority = ''2''\<rparr>"

definition exampleObservedAccept :: Permission where
  "exampleObservedAccept =
     \<lparr>Description = ''Bastion egress deny'', IpProtocol = ''all'', PortRange = ''-1/-1'',
      SourceCidrIp = [], Ipv6SourceCidrIp = [], DestCidrIp = ''10.0.0.0/8'',
      Ipv6DestCidrIp = [], DestGroupId = [], SourceGroupId = [], Policy = ''accept'',
      Priority = ''1''\<rparr>"

definition exampleIngressSSH :: AuthorizeSecurityGroupRequest where
  "exampleIngressSSH =
     \<lparr>in_SecurityGroupId = ''sg-1'', in_Description = ''SSH access for Bastion'',
      in_IpProtocol = ''tcp'', in_PortRange = ''22/22'', in_SourceCidrIp = ''203.0.113.0/24'',
      in_Ipv6SourceCidrIp = [], in_Policy = [], in_Priority = []\<rparr>"

definition exampleObservedSSH :: Permission where
  "exampleObservedSSH =
     \<lparr>Description = ''SSH access for Bastion'', IpProtocol = ''tcp'', PortRange = ''22/22'',
      SourceCidrIp = ''203.0.113.0/24'', Ipv6SourceCidrIp = [], DestCidrIp = [],
      Ipv6DestCidrIp = [], DestGroupId = [], SourceGroupId = [], Policy = ''Accept'',
      Priority = ''1''\<rparr>"

record exampleCloud =
  cloud_groups :: "SecurityGroup list"
  cloud_instances :: "Instance list"
  cloud_available :: "(int \<times> string) list"
  cloud_ingress :: "Permission list"
  cloud_egress :: "Permission list"
  cloud_publicIp :: string
  cloud_bastion :: "(string, string list, string) Bastion"

definition exampleAvailability :: "string option \<Rightarrow> DescribeAvailableResourceResponse" where
  "exampleAvailability t =
     \<lparr>AvailableZones =
        [\<lparr>AvailableResources =
            [\<lparr>SupportedResources =
                (case t of
                   None \<Rightarrow> []
                 | Some v \<Rightarrow> [\<lparr>sr_Status = ''Available'', sr_Value = v\<rparr>])\<rparr>]\<rparr>]\<rparr>"

definition examplePermission :: "AuthorizeSecurityGroupRequest \<Rightarrow> Permission" where
  "examplePermission r =
     \<lparr>Description = in_Description r, IpProtocol = in_IpProtocol r, PortRange = in_PortRange r,
      SourceCidrIp = in_SourceCidrIp r, Ipv6SourceCidrIp = in_Ipv6SourceCidrIp r, DestCidrIp = [],
      Ipv6DestCidrIp = [], DestGroupId = [], SourceGroupId = [], Policy = ''Accept'',
      Priority = ''1''\<rparr>"

definition exampleEgressPermission :: "AuthorizeSecurityGroupEgressRequest \<Rightarrow> Permission" where
  "exampleEgressPermission r =
     \<lparr>Description = eg_Description r, IpProtocol = eg_IpProtocol r, PortRange = eg_PortRange r,
      SourceCidrIp = eg_SourceCidrIp r, Ipv6SourceCidrIp = [], DestCidrIp = eg_DestCidrIp r,
      Ipv6DestCidrIp = [], DestGroupId = eg_DestGroupId r, SourceGroupId = [],
      Policy = eg_Policy r, Priority = eg_Priority r\<rparr>"

definition exampleECS :: "exampleCloud ECS" where
  "exampleECS =
     \<lparr>GetInstanceType = (\<lambda>cores zoneID s.
        (Inr (Some (exampleAvailability (map_of (cloud_available s) cores))), s)),
      GetInstances = (\<lambda>name s.
        (Inr (Some \<lparr>Instances = filter (\<lambda>i. InstanceName i = name) (cloud_instances s)\<rparr>), s)),
      CreateInstances = (\<lambda>name securityGroupID imageID vSwitchId zoneID instanceTypeID userData s.
        (Inr (Some \<lparr>InstanceIdSets = [''i-1'']\<rparr>),
         s\<lparr>cloud_instances := cloud_instances s @
              [\<lparr>InstanceId = ''i-1'', InstanceName = name, Status = ''Pending'',
                PrivateIpAddress = []\<rparr>]\<rparr>)),
      GetSecurityGroup = (\<lambda>name s.
        (Inr (Some \<lparr>SecurityGroups = filter (\<lambda>g. sg_SecurityGroupName g = name) (cloud_groups s)\<rparr>), s)),
      CreateSecurityGroups = (\<lambda>vpcID name s.
        (Inr (Some \<lparr>created_SecurityGroupId = ''sg-'' @ name\<rparr>),
         s\<lparr>cloud_groups := cloud_groups s @
              [\<lparr>sg_SecurityGroupId = ''sg-'' @ name, sg_SecurityGroupName = name\<rparr>]\<rparr>)),
      DescribeSecurityGroupAttribute = (\<lambda>request s.
        (Inr (Some \<lparr>Permissions =
           (if dsga_Direction request = ''ingress'' then cloud_ingress s else cloud_egress s)\<rparr>), s)),
      CreateIngressRule = (\<lambda>rule s.
        (None, s\<lparr>cloud_ingress := cloud_ingress s @ [examplePermission rule]\<rparr>)),
      RevokeIngressRule = (\<lambda>request s.
        (None, s\<lparr>cloud_ingress :=
           filter (\<lambda>r. \<not> (IpProtocol r = rv_IpProtocol request \<and> PortRange r = rv_PortRange request \<and>
                           SourceCidrIp r = rv_SourceCidrIp request)) (cloud_ingress s)\<rparr>)),
      CreateEgressRule = (\<lambda>rule s.
        (None, s\<lparr>cloud_egress := cloud_egress s @ [exampleEgressPermission rule]\<rparr>)),
      RevokeEgressRule = (\<lambda>request s.
        (None, s\<lparr>cloud_egress :=
           filter (\<lambda>r. \<not> (IpProtocol r = rve_IpProtocol request \<and> PortRange r = rve_PortRange request))
             (cloud_egress s)\<rparr>)),
      AllocatePublicIp = (\<lambda>instanceID s. (Inr (Some \<lparr>IpAddress = cloud_publicIp s\<rparr>), s))\<rparr>"

definition exampleVPC :: "exampleCloud VPC" where
  "exampleVPC =
     \<lparr>GetVPCInfoByName = (\<lambda>name s. (Inr \<lparr>VPCID = ''vpc-1'', VSwitchID = ''vsw-1''\<rparr>, s)),
      GetVSwitchesInfoByID = (\<lambda>vSwitchID s. (Inr \<lparr>ZoneID = ''zone-a''\<rparr>, s))\<rparr>"

definition exampleActuator :: "(exampleCloud, string, string list, string) actuator" where
  "exampleActuator =
     \<lparr>NewECSClient = (\<lambda>region accessKeyID accessKeySecret s. (Inr exampleECS, s)),
      NewVPCClient = (\<lambda>region accessKeyID accessKeySecret s. (Inr exampleVPC, s)),
      StatusPatch = (\<lambda>obj patch s.
        ((None, obj),
         s\<lparr>cloud_bastion := applyMergePatch (patchData patch obj) (cloud_bastion s)\<rparr>))\<rparr>"

definition exampleOptions :: Options where
  "exampleOptions =
     \<lparr>BastionInstanceName = ''bastion-1'', SecurityGroupName = ''bastion-1-sg'',
      ShootSecurityGroupName = ''shoot-sg'', VpcName = ''shoot-vpc'', Region = ''eu-central-1'',
      SecretReference = \<lparr>secret_Name = ''cloudprovider'', secret_Namespace = ''shoot--dev--a''\<rparr>,
      UserData = ''#!/bin/bash''\<rparr>"

definition examplePackage :: "(exampleCloud, string, string list, string) package" where
  "examplePackage =
     \<lparr>DetermineOptions = (\<lambda>bastion cluster. Inr exampleOptions),
      ReadCredentialsFromSecretRef = (\<lambda>ref s.
        (Inr \<lparr>AccessKeyID = ''key'', AccessKeySecret = ''secret''\<rparr>, s)),
      getImageID = (\<lambda>cluster opt. Inr ''image-1''),
      ingressPermissions = (\<lambda>bastion. Inr (Spec bastion)),
      ingressAllowSSH = (\<lambda>securityGroupId cidr.
        Some (exampleIngressSSH\<lparr>in_SecurityGroupId := securityGroupId, in_SourceCidrIp := cidr\<rparr>)),
      egressAllowSSHToWorker = (\<lambda>sourceCidrIp securityGroupId destGroupId.
        Some \<lparr>eg_SecurityGroupId = securityGroupId, eg_Description = ''Allow Egress SSH to workers'',
              eg_IpProtocol = ''tcp'', eg_PortRange = ''22/22'', eg_SourceCidrIp = sourceCidrIp,
              eg_DestCidrIp = [], eg_DestGroupId = destGroupId, eg_Policy = [],
              eg_Priority = []\<rparr>),
      egressDenyAll = (\<lambda>securityGroupId.
        Some (exampleEgressDenyAll\<lparr>eg_SecurityGroupId := securityGroupId\<rparr>)),
      describeSecurityGroupAttributeRequest = (\<lambda>securityGroupId direction.
        \<lparr>dsga_SecurityGroupId = securityGroupId, dsga_Direction = direction\<rparr>),
      revokeSecurityGroupRequest = (\<lambda>securityGroupId ipProtocol portRange sourceCidrIp ipv6SourceCidrIp.
        \<lparr>rv_SecurityGroupId = securityGroupId, rv_IpProtocol = ipProtocol, rv_PortRange = portRange,
         rv_SourceCidrIp = sourceCidrIp, rv_Ipv6SourceCidrIp = ipv6SourceCidrIp\<rparr>),
      revokeSecurityGroupEgressRequest = (\<lambda>securityGroupId ipProtocol portRange.
        \<lparr>rve_SecurityGroupId = securityGroupId, rve_IpProtocol = ipProtocol,
         rve_PortRange = portRange\<rparr>)\<rparr>"

definition exampleBastion :: "(string, string list, string) Bastion" where
  "exampleBastion =
     \<lparr>ObjectMeta = ''bastion-1'', Spec = [''203.0.113.0/24''], StatusDefault = ''Processing'',
      StatusIngress = None\<rparr>"

definition exampleCluster :: Cluster where
  "exampleCluster = \<lparr>MachineTypes = [\<lparr>mt_Name = ''m.small''\<rparr>, \<lparr>mt_Name = ''m.large''\<rparr>]\<rparr>"

text \<open>
  The provider before the first pass of the scenario: the shoot's security group exists,
  the bastion's group and instance do not, and no instance type is available.
\<close>

definition exampleCloud0 :: exampleCloud where
  "exampleCloud0 =
     \<lparr>cloud_groups = [\<lparr>sg_SecurityGroupId = ''sg-shoot'', sg_SecurityGroupName = ''shoot-sg''\<rparr>],
      cloud_instances = [], cloud_available = [], cloud_ingress = [], cloud_egress = [],
      cloud_publicIp = ''198.51.100.9'', cloud_bastion = exampleBastion\<rparr>"

text \<open>The instance of the scenario, with a status and its private addresses.\<close>

definition exampleInstance :: "string \<Rightarrow> string list \<Rightarrow> Instance" where
  "exampleInstance status ips =
     \<lparr>InstanceId = ''i-1'', InstanceName = ''bastion-1'', Status = status, PrivateIpAddress = ips\<rparr>"

text \<open>The provider once the bastion's group and instance exist.\<close>

definition exampleCloudWith :: "Instance \<Rightarrow> exampleCloud" where
  "exampleCloudWith i =
     exampleCloud0
       \<lparr>cloud_groups := cloud_groups exampleCloud0 @
          [\<lparr>sg_SecurityGroupId = ''sg-bastion-1-sg'', sg_SecurityGroupName = ''bastion-1-sg''\<rparr>],
        cloud_instances := [i]\<rparr>"

text \<open>
  A provider whose state regresses within a pass: the instance is running and reports
  its private address until the public address is allocated, and reports no private
  address from then on.  The actuator over it hands out this client.
\<close>

definition regressingECS :: "exampleCloud ECS" where
  "regressingECS =
     exampleECS\<lparr>AllocatePublicIp := (\<lambda>instanceID s.
        (Inr (Some \<lparr>IpAddress = cloud_publicIp s\<rparr>),
         s\<lparr>cloud_instances := map (\<lambda>i. i\<lparr>PrivateIpAddress := []\<rparr>) (cloud_instances s)\<rparr>))\<rparr>"

definition regressingActuator :: "(exampleCloud, string, string list, string) actuator" where
  "regressingActuator =
     exampleActuator\<lparr>NewECSClient := (\<lambda>region accessKeyID accessKeySecret s. (Inr regressingECS, s))\<rparr>"

definition worldOf :: "'s \<Rightarrow> 's world" where
  "worldOf s = \<lparr>provider = s, events = []\<rparr>"

section \<open>Verified properties\<close>

subsection \<open>Rule difference\<close>

lemma foundInWanted_Some:
  "foundInWanted eq (map Some W) c = Inr (\<exists>w \<in> set W. eq w c)"
  by (induction W) auto

lemma collectRulesToDelete_Some:
  "collectRulesToDelete eq (map Some W) Obs acc =
     Inr (acc @ filter (\<lambda>c. \<not> (\<exists>w \<in> set W. eq w c)) Obs)"
  by (induction Obs arbitrary: acc) (simp_all add: foundInWanted_Some)

lemma foundInCurrent_Some:
  "foundInCurrent eq (Some w) Obs = Inr (\<exists>c \<in> set Obs. eq w c)"
  by (induction Obs) auto

lemma collectRulesToAdd_Some:
  "collectRulesToAdd eq (map Some W) Obs acc =
     Inr (acc @ filter (\<lambda>w. \<not> (\<exists>c \<in> set Obs. eq w c)) W)"
  by (induction W arbitrary: acc) (simp_all add: foundInCurrent_Some)

text \<open>With no \<^verbatim>\<open>nil\<close> entry among the wanted rules, the two passes are two filters.\<close>

lemma rulesSymmetricDifference_Some:
  "rulesSymmetricDifference eq (map Some W) Obs =
     Inr (filter (\<lambda>w. \<not> (\<exists>c \<in> set Obs. eq w c)) W,
          filter (\<lambda>c. \<not> (\<exists>w \<in> set W. eq w c)) Obs)"
  by (simp add: rulesSymmetricDifference_def collectRulesToDelete_Some collectRulesToAdd_Some)

lemma ruleDiffCorrect_filter:
  "ruleDiffCorrect eq W Obs
     (filter (\<lambda>w. \<not> (\<exists>c \<in> set Obs. eq w c)) W)
     (filter (\<lambda>c. \<not> (\<exists>w \<in> set W. eq w c)) Obs)"
  unfolding ruleDiffCorrect_def by auto

lemma sameRules_filter:
  assumes "sameRules eq W Obs"
  shows "filter (\<lambda>w. \<not> (\<exists>c \<in> set Obs. eq w c)) W = []"
    and "filter (\<lambda>c. \<not> (\<exists>w \<in> set W. eq w c)) Obs = []"
  using assms unfolding sameRules_def by (auto simp: filter_empty_conv)

lemma collectRulesToAdd_None:
  "None \<in> set wanted \<Longrightarrow> \<exists>p. collectRulesToAdd eq wanted Obs acc = Inl p"
proof (induction wanted arbitrary: acc)
  case Nil
  then show ?case by simp
next
  case (Cons w wanted)
  show ?case
  proof (cases w)
    case None
    then show ?thesis by (cases Obs) simp_all
  next
    case (Some r)
    with Cons.prems have "None \<in> set wanted" by simp
    from Cons.IH [OF this] show ?thesis
      by (simp add: Some foundInCurrent_Some)
  qed
qed

text \<open>
  The difference fails exactly when a wanted entry is \<^verbatim>\<open>nil\<close>; a list of rules,
  \<open>map Some W\<close>, always has a difference.
\<close>

lemma rulesSymmetricDifference_panics_iff:
  "(\<exists>f. rulesSymmetricDifference eq wanted Obs = Inl f) \<longleftrightarrow> None \<in> set wanted"
proof
  assume failed: "\<exists>f. rulesSymmetricDifference eq wanted Obs = Inl f"
  show "None \<in> set wanted"
  proof (rule ccontr)
    assume "None \<notin> set wanted"
    then have "wanted = map Some (map the wanted)"
      by (induction wanted) auto
    then obtain W where "wanted = map Some W" ..
    with failed show False
      by (simp add: rulesSymmetricDifference_Some)
  qed
next
  assume "None \<in> set wanted"
  from collectRulesToAdd_None [OF this, of eq Obs "[]"]
  show "\<exists>f. rulesSymmetricDifference eq wanted Obs = Inl f"
    by (auto simp: rulesSymmetricDifference_def split: sum.splits)
qed

lemma rulesSymmetricDifference_correct:
  "\<exists>toAdd toDelete.
     rulesSymmetricDifference eq (map Some W) Obs = Inr (toAdd, toDelete) \<and>
     ruleDiffCorrect eq W Obs toAdd toDelete \<and>
     (sameRules eq W Obs \<longrightarrow> toAdd = [] \<and> toDelete = []) \<and>
     (W = [] \<longrightarrow> toAdd = [] \<and> toDelete = Obs) \<and>
     (Obs = [] \<longrightarrow> toAdd = W \<and> toDelete = [])"
proof -
  let ?A = "filter (\<lambda>w. \<not> (\<exists>c \<in> set Obs. eq w c)) W"
  let ?D = "filter (\<lambda>c. \<not> (\<exists>w \<in> set W. eq w c)) Obs"
  have "rulesSymmetricDifference eq (map Some W) Obs = Inr (?A, ?D)"
    by (rule rulesSymmetricDifference_Some)
  moreover have "ruleDiffCorrect eq W Obs ?A ?D"
    by (rule ruleDiffCorrect_filter)
  moreover have "sameRules eq W Obs \<longrightarrow> ?A = [] \<and> ?D = []"
    using sameRules_filter [of eq W Obs] by blast
  moreover have "W = [] \<longrightarrow> ?A = [] \<and> ?D = Obs"
    by simp
  moreover have "Obs = [] \<longrightarrow> ?A = W \<and> ?D = []"
    by simp
  ultimately show ?thesis
    by blast
qed

text \<open>
  Claim C1.  For every list \<open>W\<close> of wanted rules and every list \<open>Obs\<close> of observed
  rules, ingress or egress, the symmetric-difference function returns a pair
  \<open>(toAdd, toDelete)\<close> such that, under the rule equality of that direction: no rule of
  \<open>toAdd\<close> equals an observed rule; every rule of \<open>toDelete\<close> is an observed rule and
  equals no wanted rule; and the observed rules that are not deleted, together with
  \<open>toAdd\<close>, are the wanted rules (every wanted rule is added or equals a kept observed
  rule, every added rule is wanted, every kept observed rule equals a wanted one).  When
  \<open>W\<close> and \<open>Obs\<close> are the same up to the equality, both results are empty; an empty
  \<open>W\<close> deletes all of \<open>Obs\<close> and adds nothing, an empty \<open>Obs\<close> adds all of \<open>W\<close>
  and deletes nothing.
\<close>

theorem rule_difference_correct:
  "(\<exists>toAdd toDelete.
      ingressRulesSymmetricDifference (map Some W) Obs = Inr (toAdd, toDelete) \<and>
      ruleDiffCorrect ingressRuleEqual W Obs toAdd toDelete \<and>
      (sameRules ingressRuleEqual W Obs \<longrightarrow> toAdd = [] \<and> toDelete = []) \<and>
      (W = [] \<longrightarrow> toAdd = [] \<and> toDelete = Obs) \<and>
      (Obs = [] \<longrightarrow> toAdd = W \<and> toDelete = [])) \<and>
   (\<exists>toAdd toDelete.
      egressRulesSymmetricDifference (map Some W') Obs' = Inr (toAdd, toDelete) \<and>
      ruleDiffCorrect egressRuleEqual W' Obs' toAdd toDelete \<and>
      (sameRules egressRuleEqual W' Obs' \<longrightarrow> toAdd = [] \<and> toDelete = []) \<and>
      (W' = [] \<longrightarrow> toAdd = [] \<and> toDelete = Obs') \<and>
      (Obs' = [] \<longrightarrow> toAdd = W' \<and> toDelete = []))"
  unfolding ingressRulesSymmetricDifference_def egressRulesSymmetricDifference_def
  using rulesSymmetricDifference_correct [of ingressRuleEqual W Obs]
    rulesSymmetricDifference_correct [of egressRuleEqual W' Obs']
  by simp

theorem rule_difference_correct_witness:
  "ingressRulesSymmetricDifference [Some exampleIngressSSH] [exampleObservedSSH, exampleObservedAccept]
     = Inr ([], [exampleObservedAccept]) \<and>
   egressRulesSymmetricDifference [Some exampleEgressDenyAll] [] = Inr ([exampleEgressDenyAll], [])"
proof -
  have eq1: "ingressRuleEqual exampleIngressSSH exampleObservedSSH"
    by (simp add: ingressRuleEqual_def exampleIngressSSH_def exampleObservedSSH_def)
  have eq2: "\<not> ingressRuleEqual exampleIngressSSH exampleObservedAccept"
    by (simp add: ingressRuleEqual_def exampleIngressSSH_def exampleObservedAccept_def)
  from rule_difference_correct
    [of "[exampleIngressSSH]" "[exampleObservedSSH, exampleObservedAccept]"
        "[exampleEgressDenyAll]" "[]"]
  obtain toAdd toDelete toAdd' toDelete' where
    r: "ingressRulesSymmetricDifference [Some exampleIngressSSH]
          [exampleObservedSSH, exampleObservedAccept] = Inr (toAdd, toDelete)"
    and c: "ruleDiffCorrect ingressRuleEqual [exampleIngressSSH]
          [exampleObservedSSH, exampleObservedAccept] toAdd toDelete"
    and r': "egressRulesSymmetricDifference [Some exampleEgressDenyAll] [] = Inr (toAdd', toDelete')"
    and e: "toAdd' = [exampleEgressDenyAll]" "toDelete' = []"
    by auto
  have "ingressRulesSymmetricDifference [Some exampleIngressSSH]
          [exampleObservedSSH, exampleObservedAccept] = Inr ([], [exampleObservedAccept])"
    by (simp add: ingressRulesSymmetricDifference_def rulesSymmetricDifference_def eq1 eq2)
  with r' e show ?thesis
    by simp
qed

subsection \<open>Rule equality\<close>

text \<open>
  Claim C3, as the specification states it, fails: the deny-all egress rule and an
  observed rule with another destination and the opposite action are equal for
  \<open>egressRuleEqual\<close>.
\<close>

theorem egress_equality_ignores_destination_and_action:
  "egressRuleEqual exampleEgressDenyAll exampleObservedAccept \<and>
   eg_DestCidrIp exampleEgressDenyAll \<noteq> DestCidrIp exampleObservedAccept \<and>
   eg_Policy exampleEgressDenyAll \<noteq> Policy exampleObservedAccept"
  by (simp add: egressRuleEqual_def exampleEgressDenyAll_def exampleObservedAccept_def)

text \<open>
  Claim C3, amended.  For every wanted egress rule and every observed rule,
  \<open>egressRuleEqual\<close> returns true exactly when description, protocol, port range and
  source CIDR are the same strings.  Destination CIDR, destination group, action
  (policy) and priority are not compared: changing them on either side never changes
  the result.
\<close>

theorem egress_equality_fields:
  "(egressRuleEqual a b \<longleftrightarrow>
      eg_Description a = Description b \<and> eg_IpProtocol a = IpProtocol b \<and>
      eg_PortRange a = PortRange b \<and> eg_SourceCidrIp a = SourceCidrIp b) \<and>
   egressRuleEqual
      (a\<lparr>eg_DestCidrIp := dc, eg_DestGroupId := dg, eg_Policy := pol, eg_Priority := pri\<rparr>)
      (b\<lparr>DestCidrIp := dc', Ipv6DestCidrIp := dc6', DestGroupId := dg', Policy := pol',
         Priority := pri'\<rparr>)
     = egressRuleEqual a b"
  by (simp add: egressRuleEqual_def)

theorem egress_equality_fields_witness:
  "egressRuleEqual exampleEgressDenyAll exampleObservedAccept \<and>
   egressRuleEqual
      (exampleEgressDenyAll\<lparr>eg_DestCidrIp := ''10.0.0.0/8'', eg_DestGroupId := ''sg-2'',
         eg_Policy := ''accept'', eg_Priority := ''1''\<rparr>)
      (exampleObservedAccept\<lparr>DestCidrIp := [], Ipv6DestCidrIp := [], DestGroupId := [],
         Policy := ''drop'', Priority := ''2''\<rparr>)"
  using egress_equality_fields [where a = exampleEgressDenyAll and b = exampleObservedAccept
      and dc = "''10.0.0.0/8''" and dg = "''sg-2''" and pol = "''accept''" and pri = "''1''"
      and dc' = "[]" and dc6' = "[]" and dg' = "[]" and pol' = "''drop''" and pri' = "''2''"]
  by (simp add: exampleEgressDenyAll_def exampleObservedAccept_def)

subsection \<open>Endpoints\<close>

text \<open>
  Claim C6.  For every optional DNS name and optional IP address, \<open>addressToIngress\<close>
  returns no endpoint exactly when both are absent; otherwise it returns an endpoint whose
  hostname is the DNS name, when there is one, and is empty when there is none, and
  likewise for the IP.  \<open>Ready\<close> on a pair of endpoints is true exactly when both sides
  are present and each has a non-empty hostname or a non-empty IP; on no pair at all it
  is false.
\<close>

theorem endpoint_construction_and_readiness:
  "(addressToIngress dnsName ipAddress = None \<longleftrightarrow> dnsName = None \<and> ipAddress = None) \<and>
   (dnsName \<noteq> None \<or> ipAddress \<noteq> None \<longrightarrow>
      addressToIngress dnsName ipAddress =
        Some \<lparr>IP = (case ipAddress of None \<Rightarrow> [] | Some a \<Rightarrow> a),
              Hostname = (case dnsName of None \<Rightarrow> [] | Some d \<Rightarrow> d)\<rparr>) \<and>
   (Ready (Some \<lparr>be_private = priv, be_public = pub\<rparr>) \<longleftrightarrow>
      (\<exists>i. priv = Some i \<and> (Hostname i \<noteq> [] \<or> IP i \<noteq> [])) \<and>
      (\<exists>j. pub = Some j \<and> (Hostname j \<noteq> [] \<or> IP j \<noteq> []))) \<and>
   \<not> Ready None"
  by (auto simp: addressToIngress_def Ready_def IngressReady_def Let_def
      split: option.splits)

theorem endpoint_construction_and_readiness_witness:
  "addressToIngress None (Some ''10.0.0.5'') = Some \<lparr>IP = ''10.0.0.5'', Hostname = []\<rparr> \<and>
   Ready (Some \<lparr>be_private = addressToIngress None (Some ''10.0.0.5''),
                 be_public = addressToIngress None (Some ''1.2.3.4'')\<rparr>) \<and>
   \<not> Ready (Some \<lparr>be_private = addressToIngress None None,
                   be_public = addressToIngress None (Some ''1.2.3.4'')\<rparr>)"
  using endpoint_construction_and_readiness [of None "Some ''10.0.0.5''"
      "addressToIngress None (Some ''10.0.0.5'')" "addressToIngress None (Some ''1.2.3.4'')"]
    endpoint_construction_and_readiness [of None "Some ''1.2.3.4''"]
    endpoint_construction_and_readiness [of None None
      "addressToIngress None None" "addressToIngress None (Some ''1.2.3.4'')"]
  by simp

subsection \<open>Steps of a pass\<close>

lemma andThen_Inr: "step w = (Inr x, w') \<Longrightarrow> andThen step rest w = rest x w'"
  by (simp add: andThen_def)

lemma andThen_Inl: "step w = (Inl f, w') \<Longrightarrow> andThen step rest w = (Inl f, w')"
  by (simp add: andThen_def)

lemma call_Inr:
  "f (provider w) = (Inr x, s') \<Longrightarrow>
   call op f w = (Inr x, w\<lparr>provider := s', events := events w @ [Called op]\<rparr>)"
  by (simp add: call_def invoke_def)

lemma call_Inl:
  "f (provider w) = (Inl err, s') \<Longrightarrow>
   call op f w = (Inl (Error err), w\<lparr>provider := s', events := events w @ [Called op]\<rparr>)"
  by (simp add: call_def invoke_def)

lemma info_eq: "info msg w = (Inr (), w\<lparr>events := events w @ [Info msg]\<rparr>)"
  by (simp add: info_def logInfo_def)

lemma newEvents_append [simp]: "events w' = events w @ evs \<Longrightarrow> newEvents w w' = evs"
  by (simp add: newEvents_def)

subsection \<open>Ensuring the security group and the instance\<close>

lemma ensureSecurityGroup_found:
  assumes "GetSecurityGroup c name (provider w) = (Inr (Some r), s')"
    and "foundSecurityGroup r name = Some sg"
  shows "ensureSecurityGroup c name vpcID w =
     (Inr (sg_SecurityGroupId sg),
      w\<lparr>provider := s',
        events := events w @ [Called OpGetSecurityGroup, Info ''Security Group found'']\<rparr>)"
  using assms
  by (auto simp: ensureSecurityGroup_def foundSecurityGroup_def andThen_def call_def invoke_def
      info_def logInfo_def ret_def split: list.splits if_splits)

lemma createSecurityGroup_events:
  "\<exists>evs. events (snd (createSecurityGroup c name vpcID w)) =
     events w @ Info ''creating Security Group'' # Called OpCreateSecurityGroups # evs"
  by (auto simp: createSecurityGroup_def andThen_def call_def invoke_def info_def logInfo_def
      ret_def failWith_def split: prod.splits sum.splits option.splits)

lemma ensureSecurityGroup_creates_iff:
  "Called OpCreateSecurityGroups \<in> set (newEvents w (snd (ensureSecurityGroup c name vpcID w))) \<longleftrightarrow>
     (\<exists>r s'. GetSecurityGroup c name (provider w) = (Inr (Some r), s') \<and>
        foundSecurityGroup r name = None)"
  by (auto simp: ensureSecurityGroup_def createSecurityGroup_def foundSecurityGroup_def
      newEvents_def andThen_def call_def invoke_def info_def logInfo_def ret_def failWith_def
      split: prod.splits sum.splits option.splits list.splits if_splits)

lemma ensureComputeInstance_found:
  assumes "GetInstances c (BastionInstanceName opt) (provider w) = (Inr (Some r), s')"
    and "foundInstance r (BastionInstanceName opt) = Some i"
  shows "ensureComputeInstance c opt securityGroupID imageID vSwitchId zoneID instanceTypeID w =
     (Inr (InstanceId i), w\<lparr>provider := s', events := events w @ [Called OpGetInstances]\<rparr>)"
  using assms
  by (auto simp: ensureComputeInstance_def foundInstance_def andThen_def call_def invoke_def
      ret_def split: list.splits if_splits)

lemma ensureComputeInstance_creates_iff:
  "Called OpCreateInstances \<in> set (newEvents w (snd (ensureComputeInstance c opt securityGroupID imageID vSwitchId zoneID instanceTypeID w))) \<longleftrightarrow>
     (\<exists>r s'. GetInstances c (BastionInstanceName opt) (provider w) = (Inr (Some r), s') \<and>
        foundInstance r (BastionInstanceName opt) = None)"
  by (auto simp: ensureComputeInstance_def createInstance_def foundInstance_def
      newEvents_def andThen_def call_def invoke_def info_def logInfo_def ret_def failWith_def
      split: prod.splits sum.splits option.splits list.splits if_splits)

text \<open>
  Claim C5.  Take any client and any world.  When the lookup by name succeeds in the
  provider's state and yields a security group of the requested name (respectively an
  instance of the requested name), the ensure operation returns the id of that resource
  and adds no creation call to the trace.  A creation call is in the trace the operation
  adds exactly when the lookup succeeded and yielded no resource of that name.  When,
  moreover, the lookup leaves the provider's state as it found it, a second call with
  the same inputs, in the world the first call leaves, returns the same id and again
  creates nothing.
\<close>

theorem ensure_idempotent:
  "(\<forall>r s' sg.
      GetSecurityGroup c name (provider w) = (Inr (Some r), s') \<and>
      foundSecurityGroup r name = Some sg \<longrightarrow>
        fst (ensureSecurityGroup c name vpcID w) = Inr (sg_SecurityGroupId sg) \<and>
        Called OpCreateSecurityGroups \<notin> set (newEvents w (snd (ensureSecurityGroup c name vpcID w))) \<and>
        (s' = provider w \<longrightarrow>
           fst (ensureSecurityGroup c name vpcID (snd (ensureSecurityGroup c name vpcID w)))
             = Inr (sg_SecurityGroupId sg) \<and>
           Called OpCreateSecurityGroups \<notin>
             set (newEvents w
               (snd (ensureSecurityGroup c name vpcID (snd (ensureSecurityGroup c name vpcID w))))))) \<and>
   (Called OpCreateSecurityGroups \<in> set (newEvents w (snd (ensureSecurityGroup c name vpcID w))) \<longleftrightarrow>
      (\<exists>r s'. GetSecurityGroup c name (provider w) = (Inr (Some r), s') \<and>
         foundSecurityGroup r name = None)) \<and>
   (\<forall>r s' i.
      GetInstances c (BastionInstanceName opt) (provider w) = (Inr (Some r), s') \<and>
      foundInstance r (BastionInstanceName opt) = Some i \<longrightarrow>
        fst (ensureComputeInstance c opt securityGroupID imageID vSwitchId zoneID instanceTypeID w)
          = Inr (InstanceId i) \<and>
        Called OpCreateInstances \<notin>
          set (newEvents w
            (snd (ensureComputeInstance c opt securityGroupID imageID vSwitchId zoneID instanceTypeID w))) \<and>
        (s' = provider w \<longrightarrow>
           fst (ensureComputeInstance c opt securityGroupID imageID vSwitchId zoneID instanceTypeID
                  (snd (ensureComputeInstance c opt securityGroupID imageID vSwitchId zoneID
                          instanceTypeID w)))
             = Inr (InstanceId i) \<and>
           Called OpCreateInstances \<notin>
             set (newEvents w
               (snd (ensureComputeInstance c opt securityGroupID imageID vSwitchId zoneID instanceTypeID
                  (snd (ensureComputeInstance c opt securityGroupID imageID vSwitchId zoneID
                          instanceTypeID w))))))) \<and>
   (Called OpCreateInstances \<in>
      set (newEvents w
        (snd (ensureComputeInstance c opt securityGroupID imageID vSwitchId zoneID instanceTypeID w))) \<longleftrightarrow>
      (\<exists>r s'. GetInstances c (BastionInstanceName opt) (provider w) = (Inr (Some r), s') \<and>
         foundInstance r (BastionInstanceName opt) = None))"
proof (intro conjI allI impI)
  fix r s' sg
  assume found: "GetSecurityGroup c name (provider w) = (Inr (Some r), s') \<and>
    foundSecurityGroup r name = Some sg"
  let ?w1 = "w\<lparr>provider := s',
    events := events w @ [Called OpGetSecurityGroup, Info ''Security Group found'']\<rparr>"
  have first: "ensureSecurityGroup c name vpcID w = (Inr (sg_SecurityGroupId sg), ?w1)"
    using found by (simp add: ensureSecurityGroup_found)
  show "fst (ensureSecurityGroup c name vpcID w) = Inr (sg_SecurityGroupId sg)"
    by (simp add: first)
  show "Called OpCreateSecurityGroups \<notin> set (newEvents w (snd (ensureSecurityGroup c name vpcID w)))"
    by (simp add: first newEvents_def)
  assume same: "s' = provider w"
  have "GetSecurityGroup c name (provider ?w1) = (Inr (Some r), s')"
    using found same by simp
  from ensureSecurityGroup_found [OF this, of sg vpcID] found
  have second: "ensureSecurityGroup c name vpcID ?w1 =
      (Inr (sg_SecurityGroupId sg),
       ?w1\<lparr>provider := s',
          events := events ?w1 @ [Called OpGetSecurityGroup, Info ''Security Group found'']\<rparr>)"
    by simp
  show "fst (ensureSecurityGroup c name vpcID (snd (ensureSecurityGroup c name vpcID w)))
      = Inr (sg_SecurityGroupId sg)"
    by (simp add: first second)
  show "Called OpCreateSecurityGroups \<notin>
      set (newEvents w (snd (ensureSecurityGroup c name vpcID (snd (ensureSecurityGroup c name vpcID w)))))"
    by (simp add: first second newEvents_def)
next
  show "Called OpCreateSecurityGroups \<in> set (newEvents w (snd (ensureSecurityGroup c name vpcID w))) \<longleftrightarrow>
      (\<exists>r s'. GetSecurityGroup c name (provider w) = (Inr (Some r), s') \<and>
         foundSecurityGroup r name = None)"
    by (rule ensureSecurityGroup_creates_iff)
next
  fix r s' i
  assume found: "GetInstances c (BastionInstanceName opt) (provider w) = (Inr (Some r), s') \<and>
    foundInstance r (BastionInstanceName opt) = Some i"
  let ?ensure = "ensureComputeInstance c opt securityGroupID imageID vSwitchId zoneID instanceTypeID"
  let ?w1 = "w\<lparr>provider := s', events := events w @ [Called OpGetInstances]\<rparr>"
  have first: "?ensure w = (Inr (InstanceId i), ?w1)"
    using found by (simp add: ensureComputeInstance_found)
  show "fst (?ensure w) = Inr (InstanceId i)"
    by (simp add: first)
  show "Called OpCreateInstances \<notin> set (newEvents w (snd (?ensure w)))"
    by (simp add: first newEvents_def)
  assume same: "s' = provider w"
  have "GetInstances c (BastionInstanceName opt) (provider ?w1) = (Inr (Some r), s')"
    using found same by simp
  from ensureComputeInstance_found
    [OF this, of i securityGroupID imageID vSwitchId zoneID instanceTypeID] found
  have second: "?ensure ?w1 =
      (Inr (InstanceId i), ?w1\<lparr>provider := s', events := events ?w1 @ [Called OpGetInstances]\<rparr>)"
    by simp
  show "fst (?ensure (snd (?ensure w))) = Inr (InstanceId i)"
    by (simp add: first second)
  show "Called OpCreateInstances \<notin> set (newEvents w (snd (?ensure (snd (?ensure w)))))"
    by (simp add: first second newEvents_def)
next
  show "Called OpCreateInstances \<in>
      set (newEvents w
        (snd (ensureComputeInstance c opt securityGroupID imageID vSwitchId zoneID instanceTypeID w))) \<longleftrightarrow>
      (\<exists>r s'. GetInstances c (BastionInstanceName opt) (provider w) = (Inr (Some r), s') \<and>
         foundInstance r (BastionInstanceName opt) = None)"
    by (rule ensureComputeInstance_creates_iff)
qed

theorem ensure_idempotent_witness:
  "fst (ensureSecurityGroup exampleECS ''bastion-1-sg'' ''vpc-1''
          (worldOf (exampleCloudWith (exampleInstance ''Pending'' [])))) = Inr ''sg-bastion-1-sg'' \<and>
   fst (ensureSecurityGroup exampleECS ''bastion-1-sg'' ''vpc-1''
          (snd (ensureSecurityGroup exampleECS ''bastion-1-sg'' ''vpc-1''
             (worldOf (exampleCloudWith (exampleInstance ''Pending'' [])))))) = Inr ''sg-bastion-1-sg'' \<and>
   Called OpCreateSecurityGroups \<notin>
     set (newEvents (worldOf (exampleCloudWith (exampleInstance ''Pending'' [])))
       (snd (ensureSecurityGroup exampleECS ''bastion-1-sg'' ''vpc-1''
          (snd (ensureSecurityGroup exampleECS ''bastion-1-sg'' ''vpc-1''
             (worldOf (exampleCloudWith (exampleInstance ''Pending'' []))))))))  \<and>
   fst (ensureComputeInstance exampleECS exampleOptions ''sg-bastion-1-sg'' ''image-1'' ''vsw-1''
          ''zone-a'' ''m.small''
          (worldOf (exampleCloudWith (exampleInstance ''Pending'' [])))) = Inr ''i-1'' \<and>
   fst (ensureComputeInstance exampleECS exampleOptions ''sg-bastion-1-sg'' ''image-1'' ''vsw-1''
          ''zone-a'' ''m.small''
          (snd (ensureComputeInstance exampleECS exampleOptions ''sg-bastion-1-sg'' ''image-1''
             ''vsw-1'' ''zone-a'' ''m.small''
             (worldOf (exampleCloudWith (exampleInstance ''Pending'' [])))))) = Inr ''i-1''"
proof -
  let ?w = "worldOf (exampleCloudWith (exampleInstance ''Pending'' []))"
  let ?r = "\<lparr>SecurityGroups =
    [\<lparr>sg_SecurityGroupId = ''sg-bastion-1-sg'', sg_SecurityGroupName = ''bastion-1-sg''\<rparr>]\<rparr>"
  let ?ir = "\<lparr>Instances = [exampleInstance ''Pending'' []]\<rparr>"
  have g: "GetSecurityGroup exampleECS ''bastion-1-sg'' (provider ?w) = (Inr (Some ?r), provider ?w)"
    by (simp add: exampleECS_def worldOf_def exampleCloudWith_def exampleCloud0_def)
  have fg: "foundSecurityGroup ?r ''bastion-1-sg'' =
      Some \<lparr>sg_SecurityGroupId = ''sg-bastion-1-sg'', sg_SecurityGroupName = ''bastion-1-sg''\<rparr>"
    by (simp add: foundSecurityGroup_def)
  have i: "GetInstances exampleECS (BastionInstanceName exampleOptions) (provider ?w)
      = (Inr (Some ?ir), provider ?w)"
    by (simp add: exampleECS_def worldOf_def exampleCloudWith_def exampleCloud0_def
        exampleOptions_def exampleInstance_def)
  have fi: "foundInstance ?ir (BastionInstanceName exampleOptions) = Some (exampleInstance ''Pending'' [])"
    by (simp add: foundInstance_def exampleOptions_def exampleInstance_def)
  have id: "InstanceId (exampleInstance ''Pending'' []) = ''i-1''"
    by (simp add: exampleInstance_def)
  from ensure_idempotent [of exampleECS "''bastion-1-sg''" ?w "''vpc-1''" exampleOptions
      "''sg-bastion-1-sg''" "''image-1''" "''vsw-1''" "''zone-a''" "''m.small''"]
    g fg i fi id
  show ?thesis
    by simp
qed

subsection \<open>Unguarded indexing\<close>

lemma getInstanceEndpoints_index_panic_iff:
  "fst (getInstanceEndpoints c opt ip w) = Inl (Panic IndexOutOfRange) \<longleftrightarrow>
     (\<exists>r s' i. GetInstances c (BastionInstanceName opt) (provider w) = (Inr r, s') \<and>
        firstInstance r = Some i \<and> Status i = ''Running'' \<and> PrivateIpAddress i = [])"
  by (auto simp: getInstanceEndpoints_def firstInstance_def andThen_def call_def invoke_def
      ret_def failWith_def Let_def
      split: prod.splits sum.splits option.splits list.splits if_splits)

lemma createInstance_index_panic_iff:
  "fst (createInstance c opt securityGroupID imageID vSwitchId zoneID instanceTypeID w)
     = Inl (Panic IndexOutOfRange) \<longleftrightarrow>
   (\<exists>cr s'. CreateInstances c (BastionInstanceName opt) securityGroupID imageID vSwitchId zoneID
        instanceTypeID (UserData opt) (provider w) = (Inr (Some cr), s') \<and>
      InstanceIdSets cr = [])"
  by (auto simp: createInstance_def andThen_def call_def invoke_def info_def logInfo_def
      ret_def failWith_def
      split: prod.splits sum.splits option.splits list.splits if_splits)

lemma ensureComputeInstance_index_panic_iff:
  "fst (ensureComputeInstance c opt securityGroupID imageID vSwitchId zoneID instanceTypeID w)
     = Inl (Panic IndexOutOfRange) \<longleftrightarrow>
   (\<exists>r s' cr s''.
      GetInstances c (BastionInstanceName opt) (provider w) = (Inr (Some r), s') \<and>
      foundInstance r (BastionInstanceName opt) = None \<and>
      CreateInstances c (BastionInstanceName opt) securityGroupID imageID vSwitchId zoneID
        instanceTypeID (UserData opt) s' = (Inr (Some cr), s'') \<and>
      InstanceIdSets cr = [])"
proof (cases "GetInstances c (BastionInstanceName opt) (provider w)")
  case (Pair res s')
  let ?w1 = "w\<lparr>provider := s', events := events w @ [Called OpGetInstances]\<rparr>"
  show ?thesis
  proof (cases res)
    case (Inl err)
    with Pair show ?thesis
      by (simp add: ensureComputeInstance_def andThen_def call_def invoke_def)
  next
    case (Inr response)
    show ?thesis
    proof (cases response)
      case None
      with Pair Inr show ?thesis
        by (simp add: ensureComputeInstance_def andThen_def call_def invoke_def failWith_def)
    next
      case (Some r)
      show ?thesis
      proof (cases "foundInstance r (BastionInstanceName opt)")
        case (Some i)
        with Pair Inr \<open>response = Some r\<close> show ?thesis
          by (simp add: ensureComputeInstance_found)
      next
        case None
        with Pair Inr \<open>response = Some r\<close>
        have "ensureComputeInstance c opt securityGroupID imageID vSwitchId zoneID instanceTypeID w
          = createInstance c opt securityGroupID imageID vSwitchId zoneID instanceTypeID ?w1"
          by (auto simp: ensureComputeInstance_def foundInstance_def andThen_def call_def
              invoke_def split: list.splits if_splits)
        with Pair Inr \<open>response = Some r\<close> None show ?thesis
          by (simp add: createInstance_index_panic_iff)
      qed
    qed
  qed
qed

text \<open>
  Claim C10.  \<open>getInstanceEndpoints\<close> fails with an index out of range exactly when
  the lookup succeeds and its first instance is running and reports no private IP;
  \<open>ensureComputeInstance\<close> fails with an index out of range exactly when the lookup
  finds no instance of the name and the creation succeeds with a response that holds no
  instance id.  So both failures occur for some provider responses, and neither can
  occur when a running instance reports at least one private IP and a successful creation
  response holds at least one instance id.
\<close>

theorem unguarded_index_failures:
  "(fst (getInstanceEndpoints c opt ip w) = Inl (Panic IndexOutOfRange) \<longleftrightarrow>
      (\<exists>r s' i. GetInstances c (BastionInstanceName opt) (provider w) = (Inr r, s') \<and>
         firstInstance r = Some i \<and> Status i = ''Running'' \<and> PrivateIpAddress i = [])) \<and>
   (fst (ensureComputeInstance c opt securityGroupID imageID vSwitchId zoneID instanceTypeID w)
      = Inl (Panic IndexOutOfRange) \<longleftrightarrow>
      (\<exists>r s' cr s''.
         GetInstances c (BastionInstanceName opt) (provider w) = (Inr (Some r), s') \<and>
         foundInstance r (BastionInstanceName opt) = None \<and>
         CreateInstances c (BastionInstanceName opt) securityGroupID imageID vSwitchId zoneID
           instanceTypeID (UserData opt) s' = (Inr (Some cr), s'') \<and>
         InstanceIdSets cr = [])) \<and>
   ((\<forall>r s' i. GetInstances c (BastionInstanceName opt) (provider w) = (Inr r, s') \<and>
         firstInstance r = Some i \<and> Status i = ''Running'' \<longrightarrow> PrivateIpAddress i \<noteq> []) \<longrightarrow>
      fst (getInstanceEndpoints c opt ip w) \<noteq> Inl (Panic IndexOutOfRange)) \<and>
   ((\<forall>s' cr s''. CreateInstances c (BastionInstanceName opt) securityGroupID imageID vSwitchId zoneID
           instanceTypeID (UserData opt) s' = (Inr (Some cr), s'') \<longrightarrow> InstanceIdSets cr \<noteq> []) \<longrightarrow>
      fst (ensureComputeInstance c opt securityGroupID imageID vSwitchId zoneID instanceTypeID w)
        \<noteq> Inl (Panic IndexOutOfRange))"
  unfolding getInstanceEndpoints_index_panic_iff ensureComputeInstance_index_panic_iff
  by blast

theorem unguarded_index_failures_witness:
  "fst (getInstanceEndpoints exampleECS exampleOptions ''198.51.100.9''
          (worldOf (exampleCloudWith (exampleInstance ''Running'' []))))
     = Inl (Panic IndexOutOfRange) \<and>
   fst (getInstanceEndpoints exampleECS exampleOptions ''198.51.100.9''
          (worldOf (exampleCloudWith (exampleInstance ''Running'' [''10.0.0.5'']))))
     \<noteq> Inl (Panic IndexOutOfRange) \<and>
   fst (ensureComputeInstance
          (exampleECS\<lparr>CreateInstances :=
             (\<lambda>name securityGroupID imageID vSwitchId zoneID instanceTypeID userData s.
                (Inr (Some \<lparr>InstanceIdSets = []\<rparr>), s))\<rparr>)
          exampleOptions ''sg-bastion-1-sg'' ''image-1'' ''vsw-1'' ''zone-a'' ''m.small''
          (worldOf exampleCloud0))
     = Inl (Panic IndexOutOfRange)"
proof -
  let ?noIds = "exampleECS\<lparr>CreateInstances :=
     (\<lambda>name securityGroupID imageID vSwitchId zoneID instanceTypeID userData s.
        (Inr (Some \<lparr>InstanceIdSets = []\<rparr>), s))\<rparr>"
  have lookup: "GetInstances exampleECS (BastionInstanceName exampleOptions)
      (provider (worldOf (exampleCloudWith (exampleInstance st ips))))
    = (Inr (Some \<lparr>Instances = [exampleInstance st ips]\<rparr>), exampleCloudWith (exampleInstance st ips))"
    for st ips
    by (simp add: exampleECS_def worldOf_def exampleCloudWith_def exampleCloud0_def
        exampleOptions_def exampleInstance_def)
  have first: "firstInstance (Some \<lparr>Instances = [exampleInstance st ips]\<rparr>) = Some (exampleInstance st ips)"
    for st ips
    by (simp add: firstInstance_def)
  have fields: "Status (exampleInstance st ips) = st" "PrivateIpAddress (exampleInstance st ips) = ips"
    for st ips
    by (simp_all add: exampleInstance_def)
  have lookup0: "GetInstances ?noIds (BastionInstanceName exampleOptions) (provider (worldOf exampleCloud0))
    = (Inr (Some \<lparr>Instances = []\<rparr>), exampleCloud0)"
    by (simp add: exampleECS_def worldOf_def exampleCloud0_def)
  have none: "foundInstance \<lparr>Instances = []\<rparr> (BastionInstanceName exampleOptions) = None"
    by (simp add: foundInstance_def)
  have create: "CreateInstances ?noIds (BastionInstanceName exampleOptions) ''sg-bastion-1-sg''
      ''image-1'' ''vsw-1'' ''zone-a'' ''m.small'' (UserData exampleOptions) exampleCloud0
    = (Inr (Some \<lparr>InstanceIdSets = []\<rparr>), exampleCloud0)"
    by simp
  note thm1 = unguarded_index_failures [of exampleECS exampleOptions "''198.51.100.9''"
      "worldOf (exampleCloudWith (exampleInstance ''Running'' []))"
      "''sg-bastion-1-sg''" "''image-1''" "''vsw-1''" "''zone-a''" "''m.small''"]
  note thm2 = unguarded_index_failures [of exampleECS exampleOptions "''198.51.100.9''"
      "worldOf (exampleCloudWith (exampleInstance ''Running'' [''10.0.0.5'']))"
      "''sg-bastion-1-sg''" "''image-1''" "''vsw-1''" "''zone-a''" "''m.small''"]
  note thm3 = unguarded_index_failures [of ?noIds exampleOptions "''198.51.100.9''"
      "worldOf exampleCloud0"
      "''sg-bastion-1-sg''" "''image-1''" "''vsw-1''" "''zone-a''" "''m.small''"]
  have a: "fst (getInstanceEndpoints exampleECS exampleOptions ''198.51.100.9''
          (worldOf (exampleCloudWith (exampleInstance ''Running'' []))))
     = Inl (Panic IndexOutOfRange)"
    using thm1 lookup [of "''Running''" "[]"] first [of "''Running''" "[]"] fields
    by simp
  have b: "fst (getInstanceEndpoints exampleECS exampleOptions ''198.51.100.9''
          (worldOf (exampleCloudWith (exampleInstance ''Running'' [''10.0.0.5'']))))
     \<noteq> Inl (Panic IndexOutOfRange)"
    using thm2 lookup [of "''Running''" "[''10.0.0.5'']"] first [of "''Running''" "[''10.0.0.5'']"]
      fields
    by simp
  have c: "fst (ensureComputeInstance ?noIds exampleOptions ''sg-bastion-1-sg'' ''image-1''
          ''vsw-1'' ''zone-a'' ''m.small'' (worldOf exampleCloud0))
     = Inl (Panic IndexOutOfRange)"
    using thm3 lookup0 none create
    by simp
  from a b c show ?thesis
    by simp
qed

subsection \<open>Instance readiness\<close>

text \<open>
  What \<open>isInstanceReady\<close> returns, by what the lookup returns.  It never returns
  \<^verbatim>\<open>false\<close> with a \<^verbatim>\<open>nil\<close> error.
\<close>

lemma isInstanceReady_cases:
  assumes "GetInstances c (BastionInstanceName opt) (provider w) = (res, s')"
  shows "isInstanceReady c opt w =
    (let w' = w\<lparr>provider := s', events := events w @ [Called OpGetInstances]\<rparr> in
     case res of
       Inl err \<Rightarrow> ((False, Some err), w')
     | Inr response \<Rightarrow>
         (case firstInstance response of
            None \<Rightarrow> ((False, Some (Err ''bastion instance not yet created'')), w')
          | Some i \<Rightarrow>
              if Status i = ''Running'' then ((True, None), w')
              else ((False, Some (Err ''bastion instance not yet in Running status'')),
                    w'\<lparr>events := events w' @ [Slept (10 * Second)]\<rparr>)))"
  using assms
  by (auto simp: isInstanceReady_def firstInstance_def invoke_def sleep_def Let_def
      split: sum.splits option.splits list.splits)

lemma isInstanceReady_not_ready_has_error:
  "fst (isInstanceReady c opt w) \<noteq> (False, None)"
  by (auto simp: isInstanceReady_def invoke_def
      split: prod.splits sum.splits option.splits list.splits)

text \<open>
  The instance readiness check of the pass never ends in a retry signal: it goes on, or
  it returns the wrapped error of \<open>isInstanceReady\<close>.
\<close>

lemma Reconcile_instanceReady_result:
  "fst (Reconcile_instanceReady c opt w) = Inr () \<or>
   (\<exists>err. fst (Reconcile_instanceReady c opt w) =
      Inl (Error (Wrap ''failed to check for bastion instance: '' err)))"
proof (cases "isInstanceReady c opt w")
  case (Pair res w')
  obtain ready err where res: "res = (ready, err)"
    by (cases res)
  from isInstanceReady_not_ready_has_error [of c opt w] Pair res
  have "\<not> (ready = False \<and> err = None)"
    by simp
  with Pair res show ?thesis
    by (cases err) (auto simp: Reconcile_instanceReady_def)
qed

lemma Reconcile_instanceReady_not_running:
  assumes "GetInstances c (BastionInstanceName opt) (provider w) = (Inr response, s')"
    and "firstInstance response = Some i"
    and "Status i \<noteq> ''Running''"
  shows "Reconcile_instanceReady c opt w =
    (Inl (Error (Wrap ''failed to check for bastion instance: ''
       (Err ''bastion instance not yet in Running status''))),
     w\<lparr>provider := s', events := events w @ [Called OpGetInstances, Slept (10 * Second)]\<rparr>)"
  using assms
  by (simp add: Reconcile_instanceReady_def isInstanceReady_cases [OF assms(1)])

lemma Reconcile_instanceReady_not_found:
  assumes "GetInstances c (BastionInstanceName opt) (provider w) = (Inr response, s')"
    and "firstInstance response = None"
  shows "Reconcile_instanceReady c opt w =
    (Inl (Error (Wrap ''failed to check for bastion instance: ''
       (Err ''bastion instance not yet created''))),
     w\<lparr>provider := s', events := events w @ [Called OpGetInstances]\<rparr>)"
  using assms
  by (simp add: Reconcile_instanceReady_def isInstanceReady_cases [OF assms(1)])

text \<open>
  Claim C2 at a concrete input: the instance of the scenario is found with status
  \<^verbatim>\<open>"Pending"\<close>.  The readiness check of the pass makes the lookup, sleeps ten
  seconds and returns an error that is not a retry signal.
\<close>

theorem pending_instance_yields_error:
  "Reconcile_instanceReady exampleECS exampleOptions
      (worldOf (exampleCloudWith (exampleInstance ''Pending'' [])))
     = (Inl (Error (Wrap ''failed to check for bastion instance: ''
          (Err ''bastion instance not yet in Running status''))),
        \<lparr>provider = exampleCloudWith (exampleInstance ''Pending'' []),
         events = [Called OpGetInstances, Slept (10 * Second)]\<rparr>) \<and>
   \<not> isRetrySignal (Error (Wrap ''failed to check for bastion instance: ''
          (Err ''bastion instance not yet in Running status'')))"
proof -
  have "GetInstances exampleECS (BastionInstanceName exampleOptions)
      (provider (worldOf (exampleCloudWith (exampleInstance ''Pending'' []))))
    = (Inr (Some \<lparr>Instances = [exampleInstance ''Pending'' []]\<rparr>),
       exampleCloudWith (exampleInstance ''Pending'' []))"
    by (simp add: exampleECS_def worldOf_def exampleCloudWith_def exampleCloud0_def
        exampleOptions_def exampleInstance_def)
  from Reconcile_instanceReady_not_running [OF this, of "exampleInstance ''Pending'' []"]
  show ?thesis
    by (simp add: firstInstance_def exampleInstance_def worldOf_def)
qed

subsection \<open>The instance type\<close>


text \<open>The pass up to the choice of the instance type: the seven steps before it succeed.\<close>

lemma Reconcile_converge_resolved:
  assumes "DetermineOptions p bastion cluster = Inr opt"
    and "ReadCredentialsFromSecretRef p (SecretReference opt) (provider w) = (Inr credentials, t1)"
    and "NewECSClient a (Region opt) (AccessKeyID credentials) (AccessKeySecret credentials) t1
           = (Inr c, t2)"
    and "NewVPCClient a (Region opt) (AccessKeyID credentials) (AccessKeySecret credentials) t2
           = (Inr v, t3)"
    and "getImageID p cluster opt = Inr imageID"
    and "GetVPCInfoByName v (VpcName opt) t3 = (Inr vpcInfo, t4)"
    and "GetVSwitchesInfoByID v (VSwitchID vpcInfo) t4 = (Inr vSwitchInfo, t5)"
  shows "Reconcile_converge a p bastion cluster w =
    Reconcile_resources c p opt bastion cluster imageID vpcInfo vSwitchInfo
      (w\<lparr>provider := t5,
         events := events w @ [Called OpReadCredentials, Called OpNewECSClient, Called OpNewVPCClient,
           Called OpGetVPCInfoByName, Called OpGetVSwitchesInfoByID]\<rparr>)"
  using assms
  by (simp add: Reconcile_converge_def andThen_def liftE_def call_def invoke_def)



subsection \<open>Endpoint readiness\<close>

lemma getInstanceEndpoints_cases:
  assumes "GetInstances c (BastionInstanceName opt) (provider w) = (res, s')"
  shows "getInstanceEndpoints c opt ip w =
    (let w' = w\<lparr>provider := s', events := events w @ [Called OpGetInstances]\<rparr> in
     case res of
       Inl err \<Rightarrow> (Inl (Error err), w')
     | Inr None \<Rightarrow> (Inl (Error (Err ''compute instance can't be nil'')), w')
     | Inr (Some r) \<Rightarrow>
         (case firstInstance (Some r) of
            None \<Rightarrow> (Inl (Error (Err ''compute instance not ready yet'')), w')
          | Some i \<Rightarrow>
              if Status i \<noteq> ''Running'' then (Inl (Error (Err ''compute instance not ready yet'')), w')
              else
                (case PrivateIpAddress i of
                   [] \<Rightarrow> (Inl (Panic IndexOutOfRange), w')
                 | internalIP # _ \<Rightarrow>
                     (Inr (Some \<lparr>be_private = Some \<lparr>IP = internalIP, Hostname = []\<rparr>,
                                  be_public = Some \<lparr>IP = ip, Hostname = []\<rparr>\<rparr>), w'))))"
  using assms
  by (auto simp: getInstanceEndpoints_def firstInstance_def addressToIngress_def andThen_def
      call_def invoke_def ret_def failWith_def Let_def
      split: sum.splits option.splits list.splits)

text \<open>
  What the endpoint check of the pass returns, by what the lookup of the instance
  returns.  A lookup that fails, finds no instance or finds one that is not running
  gives an error; a running instance that reports a private address gives the endpoint
  pair when both addresses are non-empty and the retry signal of five seconds otherwise;
  a running instance that reports no private address gives neither: the read of the
  first private address is out of range.
\<close>

lemma Reconcile_endpoints_cases:
  assumes "GetInstances c (BastionInstanceName opt) (provider w) = (res, s')"
  shows "Reconcile_endpoints c opt ip w =
    (let w' = w\<lparr>provider := s', events := events w @ [Called OpGetInstances]\<rparr> in
     case res of
       Inl err \<Rightarrow> (Inl (Error err), w')
     | Inr response \<Rightarrow>
         (case response of
            None \<Rightarrow> (Inl (Error (Err ''compute instance can't be nil'')), w')
          | Some r \<Rightarrow>
              (case firstInstance response of
                 None \<Rightarrow> (Inl (Error (Err ''compute instance not ready yet'')), w')
               | Some i \<Rightarrow>
                   if Status i \<noteq> ''Running'' then
                     (Inl (Error (Err ''compute instance not ready yet'')), w')
                   else
                     (case PrivateIpAddress i of
                        [] \<Rightarrow> (Inl (Panic IndexOutOfRange), w')
                      | internalIP # _ \<Rightarrow>
                          if internalIP \<noteq> [] \<and> ip \<noteq> [] then
                            (Inr (Some \<lparr>be_private = Some \<lparr>IP = internalIP, Hostname = []\<rparr>,
                                         be_public = Some \<lparr>IP = ip, Hostname = []\<rparr>\<rparr>), w')
                          else
                            (Inl (Error (RequeueAfterError (5 * Second)
                               (Err ''bastion instance has no public/private endpoints yet''))),
                             w')))))"
  by (simp add: Reconcile_endpoints_def andThen_def getInstanceEndpoints_cases [OF assms]
      Ready_def IngressReady_def failWith_def ret_def Let_def
      split: sum.splits option.splits list.splits)

text \<open>
  A pass whose steps up to the allocation of the public address succeed ends as its
  endpoint check ends: with the failure of the check, or with the publication of the
  endpoints that the check returned.
\<close>

lemma Reconcile_at_endpoint_check:
  assumes "DetermineOptions p bastion cluster = Inr opt"
    and "ReadCredentialsFromSecretRef p (SecretReference opt) (provider w) = (Inr credentials, t1)"
    and "NewECSClient a (Region opt) (AccessKeyID credentials) (AccessKeySecret credentials) t1
           = (Inr c, t2)"
    and "NewVPCClient a (Region opt) (AccessKeyID credentials) (AccessKeySecret credentials) t2
           = (Inr v, t3)"
    and "getImageID p cluster opt = Inr imageID"
    and "GetVPCInfoByName v (VpcName opt) t3 = (Inr vpcInfo, t4)"
    and "GetVSwitchesInfoByID v (VSwitchID vpcInfo) t4 = (Inr vSwitchInfo, t5)"
    and "Reconcile_instanceTypeId c cluster (ZoneID vSwitchInfo)
           (w\<lparr>provider := t5,
              events := events w @ [Called OpReadCredentials, Called OpNewECSClient,
                Called OpNewVPCClient, Called OpGetVPCInfoByName, Called OpGetVSwitchesInfoByID]\<rparr>)
           = (Inr instanceTypeId, w1)"
    and "ensureSecurityGroup c (SecurityGroupName opt) (VPCID vpcInfo) w1 = (Inr securityGroupID, w2)"
    and "ensureComputeInstance c opt securityGroupID imageID (VSwitchID vpcInfo) (ZoneID vSwitchInfo)
           instanceTypeId w2 = (Inr instanceID, w3)"
    and "Reconcile_instanceReady c opt w3 = (Inr (), w4)"
    and "ensureSecurityGroupRules c p opt bastion securityGroupID w4 = (Inr (), w5)"
    and "AllocatePublicIp c instanceID (provider w5) = (Inr (Some allocated), s6)"
  shows "Reconcile a p bastion cluster w =
    (case Reconcile_endpoints c opt (IpAddress allocated)
            (w5\<lparr>provider := s6, events := events w5 @ [Called OpAllocatePublicIp]\<rparr>) of
       (Inl f, w') \<Rightarrow> ((Some f, bastion), w')
     | (Inr endpoints, w') \<Rightarrow> Reconcile_publish a bastion endpoints w')"
proof -
  have "Reconcile_converge a p bastion cluster w =
      Reconcile_resources c p opt bastion cluster imageID vpcInfo vSwitchInfo
        (w\<lparr>provider := t5,
           events := events w @ [Called OpReadCredentials, Called OpNewECSClient,
             Called OpNewVPCClient, Called OpGetVPCInfoByName, Called OpGetVSwitchesInfoByID]\<rparr>)"
    by (rule Reconcile_converge_resolved [OF assms(1-7)])
  also have "\<dots> = Reconcile_endpoints c opt (IpAddress allocated)
      (w5\<lparr>provider := s6, events := events w5 @ [Called OpAllocatePublicIp]\<rparr>)"
    using assms(8-13)
    by (simp add: Reconcile_resources_def andThen_def call_def invoke_def)
  finally show ?thesis
    by (simp add: Reconcile_def)
qed

text \<open>
  Claim C8 at a concrete input.  The instance of the scenario is running and reports
  its private address while the rules are reconciled, and reports no private address
  once the public address is allocated.  The pass reaches the endpoint check, whose
  lookup finds the running instance, and ends there with an index out of range: not
  with an error, not with a retry signal, and not with endpoints to publish.  The
  endpoint check alone does the same on the provider whose running instance has no
  private address.
\<close>

theorem running_instance_without_private_ip_panics:
  "fst (Reconcile regressingActuator examplePackage exampleBastion exampleCluster
          (worldOf (exampleCloudWith (exampleInstance ''Running'' [''10.0.0.5'']))))
     = (Some (Panic IndexOutOfRange), exampleBastion) \<and>
   events (snd (Reconcile regressingActuator examplePackage exampleBastion exampleCluster
          (worldOf (exampleCloudWith (exampleInstance ''Running'' [''10.0.0.5''])))))
     = [Called OpReadCredentials, Called OpNewECSClient, Called OpNewVPCClient,
        Called OpGetVPCInfoByName, Called OpGetVSwitchesInfoByID, Called OpGetInstanceType,
        Called OpGetInstanceType,
        Info ''falling back to first machine type of cloud profile as bastion instance type id'',
        Called OpGetSecurityGroup, Info ''Security Group found'', Called OpGetInstances,
        Called OpGetInstances, Called OpDescribeSecurityGroupAttribute, Called OpCreateIngressRule,
        Called OpGetSecurityGroup, Called OpGetInstances, Called OpDescribeSecurityGroupAttribute,
        Called OpCreateEgressRule, Called OpCreateEgressRule, Called OpAllocatePublicIp,
        Called OpGetInstances] \<and>
   Reconcile_endpoints exampleECS exampleOptions ''198.51.100.9''
          (worldOf (exampleCloudWith (exampleInstance ''Running'' [])))
     = (Inl (Panic IndexOutOfRange),
        \<lparr>provider = exampleCloudWith (exampleInstance ''Running'' []),
         events = [Called OpGetInstances]\<rparr>) \<and>
   \<not> isRetrySignal (Panic IndexOutOfRange)"
  by code_simp

subsection \<open>Publication of the status\<close>

text \<open>
  Claim C9.  A pass that returns without an error has computed endpoints and has
  called the status writer once, at its end, with a merge patch taken from the bastion
  as the pass received it and with that bastion in which only \<^verbatim>\<open>Status.Ingress\<close>
  has been assigned, to the public endpoint.  The body of such a patch names no part of
  the bastion but \<^verbatim>\<open>Status.Ingress\<close> (and not even that one when the endpoint is
  the one the bastion already had).  Applied to the persisted bastion, whatever other
  writers have made of it, the patch leaves metadata, spec and the rest of the status as
  they are persisted.
\<close>

theorem status_publication_frame:
  fixes a :: "('s, 'm, 'sp, 'd) actuator" and persisted :: "('m, 'sp, 'd) Bastion"
  shows
    "(fst (fst (Reconcile a p bastion cluster w)) = None \<longrightarrow>
        (\<exists>e w1.
           Reconcile_converge a p bastion cluster w = (Inr (Some e), w1) \<and>
           Reconcile a p bastion cluster w =
             (case invoke OpStatusPatch
                     (StatusPatch a (bastion\<lparr>StatusIngress := be_public e\<rparr>) (MergeFrom bastion)) w1 of
                ((err, b), w') \<Rightarrow> ((map_option Error err, b), w')))) \<and>
     patchData (MergeFrom bastion) (bastion\<lparr>StatusIngress := ingress\<rparr>) =
       \<lparr>set_ObjectMeta = None, set_Spec = None, set_StatusDefault = None,
        set_StatusIngress = (if ingress = StatusIngress bastion then None else Some ingress)\<rparr> \<and>
     applyMergePatch (patchData (MergeFrom bastion) (bastion\<lparr>StatusIngress := ingress\<rparr>)) persisted =
       persisted\<lparr>StatusIngress :=
         (if ingress = StatusIngress bastion then StatusIngress persisted else ingress)\<rparr>"
proof (intro conjI impI)
  assume ok: "fst (fst (Reconcile a p bastion cluster w)) = None"
  obtain res w1 where conv: "Reconcile_converge a p bastion cluster w = (res, w1)"
    by (cases "Reconcile_converge a p bastion cluster w")
  show "\<exists>e w1.
      Reconcile_converge a p bastion cluster w = (Inr (Some e), w1) \<and>
      Reconcile a p bastion cluster w =
        (case invoke OpStatusPatch
                (StatusPatch a (bastion\<lparr>StatusIngress := be_public e\<rparr>) (MergeFrom bastion)) w1 of
           ((err, b), w') \<Rightarrow> ((map_option Error err, b), w'))"
  proof (cases res)
    case (Inl f)
    with ok conv show ?thesis
      by (simp add: Reconcile_def)
  next
    case (Inr endpoints)
    show ?thesis
    proof (cases endpoints)
      case None
      with ok conv Inr show ?thesis
        by (simp add: Reconcile_def Reconcile_publish_def)
    next
      case (Some e)
      with conv Inr show ?thesis
        by (simp add: Reconcile_def Reconcile_publish_def Let_def)
    qed
  qed
next
  show "patchData (MergeFrom bastion) (bastion\<lparr>StatusIngress := ingress\<rparr>) =
       \<lparr>set_ObjectMeta = None, set_Spec = None, set_StatusDefault = None,
        set_StatusIngress = (if ingress = StatusIngress bastion then None else Some ingress)\<rparr>"
    by (simp add: patchData_def)
next
  show "applyMergePatch (patchData (MergeFrom bastion) (bastion\<lparr>StatusIngress := ingress\<rparr>)) persisted =
       persisted\<lparr>StatusIngress :=
         (if ingress = StatusIngress bastion then StatusIngress persisted else ingress)\<rparr>"
    by (simp add: patchData_def applyMergePatch_def)
qed

theorem status_publication_frame_witness:
  "fst (fst (Reconcile exampleActuator examplePackage exampleBastion exampleCluster
     (worldOf (exampleCloudWith (exampleInstance ''Running'' [''10.0.0.5'']))))) = None \<and>
   (\<exists>e w1.
      Reconcile_converge exampleActuator examplePackage exampleBastion exampleCluster
        (worldOf (exampleCloudWith (exampleInstance ''Running'' [''10.0.0.5'']))) = (Inr (Some e), w1)) \<and>
   applyMergePatch
     (patchData (MergeFrom exampleBastion)
        (exampleBastion\<lparr>StatusIngress := Some \<lparr>IP = ''198.51.100.9'', Hostname = []\<rparr>\<rparr>))
     (exampleBastion\<lparr>StatusDefault := ''Ready''\<rparr>)
     = \<lparr>ObjectMeta = ''bastion-1'', Spec = [''203.0.113.0/24''], StatusDefault = ''Ready'',
        StatusIngress = Some \<lparr>IP = ''198.51.100.9'', Hostname = []\<rparr>\<rparr>"
proof -
  have ok: "fst (fst (Reconcile exampleActuator examplePackage exampleBastion exampleCluster
     (worldOf (exampleCloudWith (exampleInstance ''Running'' [''10.0.0.5'']))))) = None"
    by code_simp
  note frame = status_publication_frame [of exampleActuator examplePackage exampleBastion
      exampleCluster "worldOf (exampleCloudWith (exampleInstance ''Running'' [''10.0.0.5'']))"
      "Some \<lparr>IP = ''198.51.100.9'', Hostname = []\<rparr>" "exampleBastion\<lparr>StatusDefault := ''Ready''\<rparr>"]
  from frame ok have reached: "\<exists>e w1.
      Reconcile_converge exampleActuator examplePackage exampleBastion exampleCluster
        (worldOf (exampleCloudWith (exampleInstance ''Running'' [''10.0.0.5'']))) = (Inr (Some e), w1)"
    by blast
  from frame have "applyMergePatch
     (patchData (MergeFrom exampleBastion)
        (exampleBastion\<lparr>StatusIngress := Some \<lparr>IP = ''198.51.100.9'', Hostname = []\<rparr>\<rparr>))
     (exampleBastion\<lparr>StatusDefault := ''Ready''\<rparr>)
     = (exampleBastion\<lparr>StatusDefault := ''Ready''\<rparr>)\<lparr>StatusIngress :=
         (if Some \<lparr>IP = ''198.51.100.9'', Hostname = []\<rparr> = StatusIngress exampleBastion
          then StatusIngress (exampleBastion\<lparr>StatusDefault := ''Ready''\<rparr>)
          else Some \<lparr>IP = ''198.51.100.9'', Hostname = []\<rparr>)\<rparr>"
    by blast
  then have applied: "applyMergePatch
     (patchData (MergeFrom exampleBastion)
        (exampleBastion\<lparr>StatusIngress := Some \<lparr>IP = ''198.51.100.9'', Hostname = []\<rparr>\<rparr>))
     (exampleBastion\<lparr>StatusDefault := ''Ready''\<rparr>)
     = \<lparr>ObjectMeta = ''bastion-1'', Spec = [''203.0.113.0/24''], StatusDefault = ''Ready'',
        StatusIngress = Some \<lparr>IP = ''198.51.100.9'', Hostname = []\<rparr>\<rparr>"
    by (simp add: exampleBastion_def)
  from ok reached applied show ?thesis
    by blast
qed

subsection \<open>Sleeping\<close>

lemma sleeps_invoke [simp]: "sleeps (snd (invoke op f w)) = sleeps w"
  by (simp add: invoke_def sleeps_def split: prod.splits)

lemma sleeps_logInfo [simp]: "sleeps (logInfo msg w) = sleeps w"
  by (simp add: logInfo_def sleeps_def)

lemma sleeps_sleep [simp]: "sleeps (sleep d w) = sleeps w @ [Slept d]"
  by (simp add: sleep_def sleeps_def)

lemma neverSleeps_ret: "neverSleeps (ret x)"
  by (simp add: neverSleeps_def ret_def)

lemma neverSleeps_failWith: "neverSleeps (failWith f)"
  by (simp add: neverSleeps_def failWith_def)

lemma neverSleeps_info: "neverSleeps (info msg)"
  by (simp add: neverSleeps_def info_def)

lemma neverSleeps_liftE: "neverSleeps (liftE r)"
  by (simp add: neverSleeps_def liftE_def split: sum.splits)

lemma neverSleeps_liftF: "neverSleeps (liftF r)"
  by (simp add: neverSleeps_def liftF_def)

lemma neverSleeps_call: "neverSleeps (call op f)"
proof -
  have "sleeps (snd (call op f w)) = sleeps w" for w
  proof (cases "invoke op f w")
    case (Pair r w')
    with sleeps_invoke [of op f w] show ?thesis
      by (cases r) (simp_all add: call_def)
  qed
  then show ?thesis
    by (simp add: neverSleeps_def)
qed

lemma neverSleeps_andThen:
  assumes "neverSleeps step" and "\<And>x. neverSleeps (rest x)"
  shows "neverSleeps (andThen step rest)"
proof -
  have "sleeps (snd (andThen step rest w)) = sleeps w" for w
  proof (cases "step w")
    case (Pair r w')
    with assms(1) have "sleeps w' = sleeps w"
      by (auto simp: neverSleeps_def dest: spec [of _ w])
    with Pair assms(2) show ?thesis
      by (cases r) (auto simp: andThen_def neverSleeps_def)
  qed
  then show ?thesis
    by (simp add: neverSleeps_def)
qed

lemma neverSleeps_option:
  assumes "neverSleeps a" and "\<And>x. neverSleeps (b x)"
  shows "neverSleeps (case r of None \<Rightarrow> a | Some x \<Rightarrow> b x)"
  using assms by (cases r) simp_all

lemma neverSleeps_list:
  assumes "neverSleeps a" and "\<And>x xs. neverSleeps (b x xs)"
  shows "neverSleeps (case l of [] \<Rightarrow> a | x # xs \<Rightarrow> b x xs)"
  using assms by (cases l) simp_all

lemma neverSleeps_if:
  assumes "neverSleeps a" and "neverSleeps b"
  shows "neverSleeps (if P then a else b)"
  using assms by simp

lemma neverSleeps_prod:
  assumes "\<And>x y. neverSleeps (f x y)"
  shows "neverSleeps (case r of (x, y) \<Rightarrow> f x y)"
  using assms by (cases r) simp

lemmas neverSleeps_steps =
  neverSleeps_andThen neverSleeps_option neverSleeps_list neverSleeps_if neverSleeps_prod
  neverSleeps_ret neverSleeps_failWith neverSleeps_info neverSleeps_liftE neverSleeps_liftF
  neverSleeps_call

lemma neverSleeps_createSecurityGroup: "neverSleeps (createSecurityGroup c name vpcID)"
  unfolding createSecurityGroup_def by (intro neverSleeps_steps)

lemma neverSleeps_ensureSecurityGroup: "neverSleeps (ensureSecurityGroup c name vpcID)"
  unfolding ensureSecurityGroup_def
  by (intro neverSleeps_steps neverSleeps_createSecurityGroup)

lemma neverSleeps_createInstance:
  "neverSleeps (createInstance c opt securityGroupID imageID vSwitchId zoneID instanceTypeID)"
  unfolding createInstance_def by (intro neverSleeps_steps)

lemma neverSleeps_ensureComputeInstance:
  "neverSleeps (ensureComputeInstance c opt securityGroupID imageID vSwitchId zoneID instanceTypeID)"
  unfolding ensureComputeInstance_def
  by (intro neverSleeps_steps neverSleeps_createInstance)

lemma neverSleeps_getInstanceEndpoints: "neverSleeps (getInstanceEndpoints c opt ip)"
  unfolding getInstanceEndpoints_def Let_def by (intro neverSleeps_steps)

lemma neverSleeps_Reconcile_endpoints: "neverSleeps (Reconcile_endpoints c opt ip)"
  unfolding Reconcile_endpoints_def
  by (intro neverSleeps_steps neverSleeps_getInstanceEndpoints)

lemma sleeps_probeInstanceTypes: "sleeps (snd (probeInstanceTypes c zoneID cores w)) = sleeps w"
proof (induction c zoneID cores w rule: probeInstanceTypes.induct)
  case (1 c zoneID cores w)
  show ?case
  proof (cases "cores \<le> 2")
    case False
    then show ?thesis
      by (subst probeInstanceTypes.simps) simp
  next
    case True
    obtain r w' where inv: "invoke OpGetInstanceType (GetInstanceType c cores zoneID) w = (r, w')"
      by (cases "invoke OpGetInstanceType (GetInstanceType c cores zoneID) w")
    with sleeps_invoke [of OpGetInstanceType "GetInstanceType c cores zoneID" w]
    have same: "sleeps w' = sleeps w"
      by simp
    show ?thesis
    proof (cases r)
      case (Inl err)
      with True inv same show ?thesis
        by (subst probeInstanceTypes.simps) simp
    next
      case (Inr instanceType)
      show ?thesis
      proof (cases "availableInstanceType instanceType")
        case (Some supported)
        with True inv Inr same show ?thesis
          by (subst probeInstanceTypes.simps) simp
      next
        case None
        from "1.IH" [OF True inv [symmetric] Inr None]
        have "sleeps (snd (probeInstanceTypes c zoneID (cores + 1) w')) = sleeps w'" .
        with True inv Inr None same show ?thesis
          by (subst probeInstanceTypes.simps) simp
      qed
    qed
  qed
qed

lemma neverSleeps_probeInstanceTypes: "neverSleeps (probeInstanceTypes c zoneID cores)"
  by (simp add: neverSleeps_def sleeps_probeInstanceTypes)

lemma neverSleeps_Reconcile_instanceTypeId: "neverSleeps (Reconcile_instanceTypeId c cluster zoneID)"
  unfolding Reconcile_instanceTypeId_def
  by (intro neverSleeps_steps neverSleeps_probeInstanceTypes)

lemma sleeps_createIngressRules: "sleeps (snd (createIngressRules c rules w)) = sleeps w"
proof (induction rules arbitrary: w)
  case Nil
  show ?case by simp
next
  case (Cons rule rules)
  obtain r w' where inv: "invoke OpCreateIngressRule (CreateIngressRule c rule) w = (r, w')"
    by (cases "invoke OpCreateIngressRule (CreateIngressRule c rule) w")
  with sleeps_invoke [of OpCreateIngressRule "CreateIngressRule c rule" w]
  have "sleeps w' = sleeps w"
    by simp
  with inv Cons.IH [of w'] show ?case
    by (cases r) simp_all
qed

lemma sleeps_revokeIngressRules:
  "sleeps (snd (revokeIngressRules c p securityGroupId rules w)) = sleeps w"
proof (induction rules arbitrary: w)
  case Nil
  show ?case by simp
next
  case (Cons rule rules)
  let ?f = "RevokeIngressRule c
    (revokeSecurityGroupRequest p securityGroupId (IpProtocol rule) (PortRange rule)
       (SourceCidrIp rule) (Ipv6SourceCidrIp rule))"
  obtain r w' where inv: "invoke OpRevokeIngressRule ?f w = (r, w')"
    by (cases "invoke OpRevokeIngressRule ?f w")
  with sleeps_invoke [of OpRevokeIngressRule ?f w]
  have "sleeps w' = sleeps w"
    by simp
  with inv Cons.IH [of w'] show ?case
    by (cases r) simp_all
qed

lemma sleeps_createEgressRules: "sleeps (snd (createEgressRules c rules w)) = sleeps w"
proof (induction rules arbitrary: w)
  case Nil
  show ?case by simp
next
  case (Cons rule rules)
  obtain r w' where inv: "invoke OpCreateEgressRule (CreateEgressRule c rule) w = (r, w')"
    by (cases "invoke OpCreateEgressRule (CreateEgressRule c rule) w")
  with sleeps_invoke [of OpCreateEgressRule "CreateEgressRule c rule" w]
  have "sleeps w' = sleeps w"
    by simp
  with inv Cons.IH [of w'] show ?case
    by (cases r) simp_all
qed

lemma sleeps_revokeEgressRules:
  "sleeps (snd (revokeEgressRules c p securityGroupId rules w)) = sleeps w"
proof (induction rules arbitrary: w)
  case Nil
  show ?case by simp
next
  case (Cons rule rules)
  let ?f = "RevokeEgressRule c
    (revokeSecurityGroupEgressRequest p securityGroupId (IpProtocol rule) (PortRange rule))"
  obtain r w' where inv: "invoke OpRevokeEgressRule ?f w = (r, w')"
    by (cases "invoke OpRevokeEgressRule ?f w")
  with sleeps_invoke [of OpRevokeEgressRule ?f w]
  have "sleeps w' = sleeps w"
    by simp
  with inv Cons.IH [of w'] show ?case
    by (cases r) simp_all
qed

lemma neverSleeps_rule_loops:
  "neverSleeps (createIngressRules c toAdd)"
  "neverSleeps (revokeIngressRules c p securityGroupId toDelete)"
  "neverSleeps (createEgressRules c toAdd')"
  "neverSleeps (revokeEgressRules c p securityGroupId toDelete)"
  by (simp_all add: neverSleeps_def sleeps_createIngressRules sleeps_revokeIngressRules
      sleeps_createEgressRules sleeps_revokeEgressRules)

lemma neverSleeps_ensureIngressRules: "neverSleeps (ensureIngressRules c p bastion securityGroupId)"
  unfolding ensureIngressRules_def Let_def
  by (intro neverSleeps_steps neverSleeps_rule_loops)

lemma neverSleeps_applyEgressRules: "neverSleeps (applyEgressRules c p securityGroupId wanted)"
  unfolding applyEgressRules_def
  by (intro neverSleeps_steps neverSleeps_rule_loops)

lemma neverSleeps_ensureEgressRules: "neverSleeps (ensureEgressRules c p opt securityGroupId)"
  unfolding ensureEgressRules_def
  by (intro neverSleeps_steps neverSleeps_applyEgressRules)

lemma neverSleeps_ensureSecurityGroupRules:
  "neverSleeps (ensureSecurityGroupRules c p opt bastion securityGroupId)"
  unfolding ensureSecurityGroupRules_def
  by (intro neverSleeps_steps neverSleeps_ensureIngressRules neverSleeps_ensureEgressRules)

text \<open>Steps that sleep only in the readiness check, in a sequence.\<close>

lemma sleepsOnlyInReadinessCheck_after:
  assumes "neverSleeps step" and "\<And>x. sleepsOnlyInReadinessCheck (rest x)"
  shows "sleepsOnlyInReadinessCheck (andThen step rest)"
proof -
  have "sleeps (snd (andThen step rest w)) = sleeps w \<or>
      (\<exists>(c :: 'a ECS) opt w0.
         sleeps w0 = sleeps w \<and>
         snd (andThen step rest w) = snd (isInstanceReady c opt w0) \<and>
         sleeps (snd (isInstanceReady c opt w0)) = sleeps w0 @ [Slept (10 * Second)] \<and>
         fst (andThen step rest w) = Inl (Error (Wrap ''failed to check for bastion instance: ''
           (Err ''bastion instance not yet in Running status''))))"
    for w
  proof (cases "step w")
    case (Pair r w')
    with assms(1) have same: "sleeps w' = sleeps w"
      by (auto simp: neverSleeps_def dest: spec [of _ w])
    show ?thesis
    proof (cases r)
      case (Inl f)
      with Pair same show ?thesis
        by (simp add: andThen_def)
    next
      case (Inr x)
      from assms(2) [of x] have "sleeps (snd (rest x w')) = sleeps w' \<or>
          (\<exists>(c :: 'a ECS) opt w0.
             sleeps w0 = sleeps w' \<and>
             snd (rest x w') = snd (isInstanceReady c opt w0) \<and>
             sleeps (snd (isInstanceReady c opt w0)) = sleeps w0 @ [Slept (10 * Second)] \<and>
             fst (rest x w') = Inl (Error (Wrap ''failed to check for bastion instance: ''
               (Err ''bastion instance not yet in Running status''))))"
        by (simp add: sleepsOnlyInReadinessCheck_def)
      with Pair Inr same show ?thesis
        by (simp add: andThen_def)
    qed
  qed
  then show ?thesis
    by (simp add: sleepsOnlyInReadinessCheck_def)
qed

lemma sleepsOnlyInReadinessCheck_before:
  assumes "sleepsOnlyInReadinessCheck step" and "\<And>x. neverSleeps (rest x)"
  shows "sleepsOnlyInReadinessCheck (andThen step rest)"
proof -
  have "sleeps (snd (andThen step rest w)) = sleeps w \<or>
      (\<exists>(c :: 'a ECS) opt w0.
         sleeps w0 = sleeps w \<and>
         snd (andThen step rest w) = snd (isInstanceReady c opt w0) \<and>
         sleeps (snd (isInstanceReady c opt w0)) = sleeps w0 @ [Slept (10 * Second)] \<and>
         fst (andThen step rest w) = Inl (Error (Wrap ''failed to check for bastion instance: ''
           (Err ''bastion instance not yet in Running status''))))"
    for w
  proof (cases "step w")
    case (Pair r w')
    from assms(1) [unfolded sleepsOnlyInReadinessCheck_def, THEN spec, of w] Pair
    have first: "sleeps w' = sleeps w \<or>
        (\<exists>(c :: 'a ECS) opt w0.
           sleeps w0 = sleeps w \<and>
           w' = snd (isInstanceReady c opt w0) \<and>
           sleeps (snd (isInstanceReady c opt w0)) = sleeps w0 @ [Slept (10 * Second)] \<and>
           r = Inl (Error (Wrap ''failed to check for bastion instance: ''
             (Err ''bastion instance not yet in Running status''))))"
      by simp
    show ?thesis
    proof (cases r)
      case (Inl f)
      with Pair first show ?thesis
        by (simp add: andThen_def)
    next
      case (Inr x)
      with first have "sleeps w' = sleeps w"
        by auto
      moreover from assms(2) [of x] have "sleeps (snd (rest x w')) = sleeps w'"
        by (simp add: neverSleeps_def)
      ultimately show ?thesis
        using Pair Inr by (simp add: andThen_def)
    qed
  qed
  then show ?thesis
    by (simp add: sleepsOnlyInReadinessCheck_def)
qed

lemma sleeps_isInstanceReady:
  assumes "GetInstances c (BastionInstanceName opt) (provider w) = (res, s')"
  shows "sleeps (snd (isInstanceReady c opt w)) =
    (if \<exists>r i. res = Inr r \<and> firstInstance r = Some i \<and> Status i \<noteq> ''Running''
     then sleeps w @ [Slept (10 * Second)] else sleeps w)"
  by (cases res)
    (auto simp: isInstanceReady_cases [OF assms] sleeps_def Let_def split: option.splits)

lemma sleepsOnlyInReadinessCheck_Reconcile_instanceReady:
  "sleepsOnlyInReadinessCheck (Reconcile_instanceReady c opt)"
proof -
  have "sleeps (snd (Reconcile_instanceReady c opt w)) = sleeps w \<or>
      (snd (Reconcile_instanceReady c opt w) = snd (isInstanceReady c opt w) \<and>
       sleeps (snd (isInstanceReady c opt w)) = sleeps w @ [Slept (10 * Second)] \<and>
       fst (Reconcile_instanceReady c opt w) =
         Inl (Error (Wrap ''failed to check for bastion instance: ''
           (Err ''bastion instance not yet in Running status''))))" for w
  proof (cases "GetInstances c (BastionInstanceName opt) (provider w)")
    case (Pair res s')
    show ?thesis
      by (cases res)
        (auto simp: Reconcile_instanceReady_def isInstanceReady_cases [OF Pair] sleeps_def Let_def
          split: option.splits)
  qed
  then show ?thesis
    unfolding sleepsOnlyInReadinessCheck_def by blast
qed

lemma sleepsOnlyInReadinessCheck_Reconcile_resources:
  "sleepsOnlyInReadinessCheck
     (Reconcile_resources c p opt bastion cluster imageID vpcInfo vSwitchInfo)"
  unfolding Reconcile_resources_def
  by (intro sleepsOnlyInReadinessCheck_after sleepsOnlyInReadinessCheck_before
      sleepsOnlyInReadinessCheck_Reconcile_instanceReady
      neverSleeps_Reconcile_instanceTypeId neverSleeps_ensureSecurityGroup
      neverSleeps_ensureComputeInstance neverSleeps_ensureSecurityGroupRules
      neverSleeps_Reconcile_endpoints neverSleeps_steps)

lemma sleepsOnlyInReadinessCheck_Reconcile_converge:
  "sleepsOnlyInReadinessCheck (Reconcile_converge a p bastion cluster)"
  unfolding Reconcile_converge_def
  by (intro sleepsOnlyInReadinessCheck_after sleepsOnlyInReadinessCheck_Reconcile_resources
      neverSleeps_steps)

lemma sleeps_Reconcile_publish: "sleeps (snd (Reconcile_publish a bastion endpoints w)) = sleeps w"
proof (cases endpoints)
  case None
  then show ?thesis
    by (simp add: Reconcile_publish_def)
next
  case (Some e)
  let ?f = "StatusPatch a (bastion\<lparr>StatusIngress := be_public e\<rparr>) (MergeFrom bastion)"
  obtain r w' where inv: "invoke OpStatusPatch ?f w = (r, w')"
    by (cases "invoke OpStatusPatch ?f w")
  with sleeps_invoke [of OpStatusPatch ?f w] have "sleeps w' = sleeps w"
    by simp
  with Some inv show ?thesis
    by (cases r) (simp add: Reconcile_publish_def Let_def)
qed

text \<open>
  Where a pass sleeps.  A pass either does not sleep at all, or it sleeps once: it ends
  in the world in which a call of \<open>isInstanceReady\<close> returned after its sleep of ten
  seconds, nothing of the pass slept before that call, and the pass returns the wrapped
  error of the check, with the bastion as it received it.  That call sleeps exactly when
  its lookup succeeds with a first instance whose status is not \<^verbatim>\<open>"Running"\<close>
  (\<open>sleeps_isInstanceReady\<close>).
\<close>

lemma Reconcile_sleeps_only_in_isInstanceReady:
  fixes a :: "('s, 'm, 'sp, 'd) actuator"
  shows "sleeps (snd (Reconcile a p bastion cluster w)) = sleeps w \<or>
   (\<exists>(c :: 's ECS) opt w0.
      sleeps w0 = sleeps w \<and>
      snd (Reconcile a p bastion cluster w) = snd (isInstanceReady c opt w0) \<and>
      sleeps (snd (isInstanceReady c opt w0)) = sleeps w0 @ [Slept (10 * Second)] \<and>
      fst (Reconcile a p bastion cluster w) =
        (Some (Error (Wrap ''failed to check for bastion instance: ''
           (Err ''bastion instance not yet in Running status''))), bastion))"
proof (cases "Reconcile_converge a p bastion cluster w")
  case (Pair r w')
  from sleepsOnlyInReadinessCheck_Reconcile_converge
    [of a p bastion cluster, unfolded sleepsOnlyInReadinessCheck_def, THEN spec, of w] Pair
  have conv: "sleeps w' = sleeps w \<or>
      (\<exists>(c :: 's ECS) opt w0.
         sleeps w0 = sleeps w \<and>
         w' = snd (isInstanceReady c opt w0) \<and>
         sleeps (snd (isInstanceReady c opt w0)) = sleeps w0 @ [Slept (10 * Second)] \<and>
         r = Inl (Error (Wrap ''failed to check for bastion instance: ''
           (Err ''bastion instance not yet in Running status''))))"
    by simp
  show ?thesis
  proof (cases r)
    case (Inl f)
    with Pair conv show ?thesis
      by (auto simp: Reconcile_def)
  next
    case (Inr endpoints)
    with conv have "sleeps w' = sleeps w"
      by auto
    with Pair Inr show ?thesis
      by (simp add: Reconcile_def sleeps_Reconcile_publish)
  qed
qed

text \<open>
  Claim C4 at a concrete input: the first pass of the scenario, on a provider that has
  neither the group nor the instance.  The pass creates both, looks the instance up,
  finds it pending, and sleeps ten seconds inside the readiness check before it returns.
  What it returns then is the wrapped error of the check, not a retry value.
\<close>

theorem first_pass_sleeps:
  "sleeps (snd (Reconcile exampleActuator examplePackage exampleBastion exampleCluster
      (worldOf exampleCloud0))) = [Slept (10 * Second)] \<and>
   events (snd (Reconcile exampleActuator examplePackage exampleBastion exampleCluster
      (worldOf exampleCloud0)))
     = [Called OpReadCredentials, Called OpNewECSClient, Called OpNewVPCClient,
        Called OpGetVPCInfoByName, Called OpGetVSwitchesInfoByID, Called OpGetInstanceType,
        Called OpGetInstanceType,
        Info ''falling back to first machine type of cloud profile as bastion instance type id'',
        Called OpGetSecurityGroup, Info ''creating Security Group'', Called OpCreateSecurityGroups,
        Called OpGetInstances, Info ''creating new bastion compute instance'',
        Called OpCreateInstances, Called OpGetInstances, Slept (10 * Second)] \<and>
   fst (Reconcile exampleActuator examplePackage exampleBastion exampleCluster
      (worldOf exampleCloud0))
     = (Some (Error (Wrap ''failed to check for bastion instance: ''
          (Err ''bastion instance not yet in Running status''))), exampleBastion)"
  by code_simp

end
